theory Spec2Isabelle
  imports Main
begin

section \<open>Errors and panics\<close>

text \<open>
  Go's \<^verbatim>\<open>error\<close> values and the values carried by \<^verbatim>\<open>panic\<close>. A function of the source
  that may panic returns \<open>error + 'a\<close> (\<open>Inl\<close> is the panic); a function that returns a Go
  \<^verbatim>\<open>error\<close> returns \<open>error option\<close> (\<open>None\<close> is \<^verbatim>\<open>nil\<close>).
\<close>

datatype error =
    IndexOutOfRange int nat  \<comment> \<open>runtime error: index out of range [i] with length n\<close>
  | NilPointerDereference  \<comment> \<open>runtime error: invalid memory address or nil pointer dereference\<close>
  | TooManyArguments  \<comment> \<open>\<^verbatim>\<open>errors.New("too many arguments")\<close>\<close>
  | UnknownContentType string  \<comment> \<open>\<^verbatim>\<open>fmt.Errorf("unknown Content-Type: %v", ct)\<close>\<close>
  | NoSuchTemplate string  \<comment> \<open>\<^verbatim>\<open>errors.New("no such template: " + ident)\<close>\<close>
  | ErrNotMultipart  \<comment> \<open>\<^verbatim>\<open>http.ErrNotMultipart\<close>\<close>
  | BugControllerField  \<comment> \<open>\<^verbatim>\<open>BUG: Controller field must be struct of ... or that pointer\<close>\<close>
  | OtherError string  \<comment> \<open>any error raised or returned by application code or a collaborator\<close>

section \<open>util.go: path canonicalization\<close>

subsection \<open>Go's \<^verbatim>\<open>path.Clean\<close>\<close>

text \<open>
  \<^verbatim>\<open>normPath\<close> calls \<^verbatim>\<open>path.Clean\<close> of Go's standard library. Its loop is modelled
  byte by byte: \<open>r\<close> is the index of the next byte to read, \<open>out\<close> the bytes written so far
  (the \<^verbatim>\<open>lazybuf\<close>, whose write index \<^verbatim>\<open>w\<close> is \<open>length out\<close>) and \<open>dotdot\<close> the index
  where backtracking over \<^verbatim>\<open>..\<close> must stop.
\<close>

text \<open>The inner loop of the \<^verbatim>\<open>..\<close> case, after \<^verbatim>\<open>out.w--\<close>:
  \<^verbatim>\<open>for out.w > dotdot && out.index(out.w) != '/' { out.w-- }\<close>.\<close>

fun lazybuf_backtrack :: "string \<Rightarrow> nat \<Rightarrow> nat \<Rightarrow> nat" where
  "lazybuf_backtrack buf dotdot w =
     (if w > dotdot \<and> buf ! w \<noteq> CHR ''/'' then lazybuf_backtrack buf dotdot (w - 1) else w)"

declare lazybuf_backtrack.simps [simp del]

function Clean_loop :: "string \<Rightarrow> bool \<Rightarrow> nat \<Rightarrow> string \<Rightarrow> nat \<Rightarrow> string" where
  "Clean_loop path rooted r out dotdot =
     (if r < length path then
        (if path ! r = CHR ''/'' then Clean_loop path rooted (r + 1) out dotdot
         else if path ! r = CHR ''.'' \<and> (r + 1 = length path \<or> path ! (r + 1) = CHR ''/'')
           then Clean_loop path rooted (r + 1) out dotdot
         else if path ! r = CHR ''.'' \<and> path ! (r + 1) = CHR ''.''
                 \<and> (r + 2 = length path \<or> path ! (r + 2) = CHR ''/'')
           then (if length out > dotdot
                   then Clean_loop path rooted (r + 2)
                          (take (lazybuf_backtrack out dotdot (length out - 1)) out) dotdot
                 else if \<not> rooted
                   then (let out' = (if length out > 0 then out @ ''/'' else out) @ ''..''
                         in Clean_loop path rooted (r + 2) out' (length out'))
                 else Clean_loop path rooted (r + 2) out dotdot)
         else (let out1 = (if (rooted \<and> length out \<noteq> 1) \<or> (\<not> rooted \<and> length out \<noteq> 0)
                             then out @ ''/'' else out);
                   elem = takeWhile (\<lambda>c. c \<noteq> CHR ''/'') (drop r path)
               in Clean_loop path rooted (r + length elem) (out1 @ elem) dotdot))
      else out)"
  by pat_completeness auto
termination
proof (relation "measure (\<lambda>(path, rooted, r, out, dotdot). length path - r)", goal_cases)
  case (7 path rooted r out dotdot out1 elem)
  have "drop r path = path ! r # drop (Suc r) path"
    using 7(1) by (simp add: Cons_nth_drop_Suc)
  then have "takeWhile (\<lambda>c. c \<noteq> CHR ''/'') (drop r path)
      = path ! r # takeWhile (\<lambda>c. c \<noteq> CHR ''/'') (drop (Suc r) path)"
    using 7(2) by simp
  then show ?case
    using 7(1) 7(6) by simp
qed simp_all

declare Clean_loop.simps [simp del]

definition Clean :: "string \<Rightarrow> string" where
  "Clean path =
     (if path = [] then ''.''
      else (let rooted = (path ! 0 = CHR ''/'');
                out = Clean_loop path rooted (if rooted then 1 else 0)
                        (if rooted then ''/'' else []) (if rooted then 1 else 0)
            in if length out = 0 then ''.'' else out))"

subsection \<open>\<^verbatim>\<open>normPath\<close>\<close>

text \<open>
  \<^verbatim>\<open>result := path.Clean(p); if p[len(p)-1] == '/' && result != "/" { result += "/" }\<close>.
  The index \<^verbatim>\<open>len(p)-1\<close> is a Go \<^verbatim>\<open>int\<close>; indexing outside \<open>0..<len(p)\<close> panics.
\<close>

definition normPath :: "string \<Rightarrow> error + string" where
  "normPath p =
     (let result = Clean p;
          i = int (length p) - 1
      in if i < 0 \<or> int (length p) \<le> i then Inl (IndexOutOfRange i (length p))
         else if p ! nat i = CHR ''/'' \<and> result \<noteq> ''/'' then Inr (result @ ''/'')
         else Inr result)"



section \<open>Go's \<^verbatim>\<open>net/http\<close> and \<^verbatim>\<open>path/filepath\<close>\<close>

text \<open>
  An \<^verbatim>\<open>http.ResponseWriter\<close>, as \<^verbatim>\<open>httptest.ResponseRecorder\<close> observes it: the header map
  that the program still edits, and what has been sent: the status code and the header fields
  that went with it (fixed by the first \<^verbatim>\<open>WriteHeader\<close>; later calls are ignored) and the
  body.
\<close>

record ResponseWriter =
  Header :: "string \<rightharpoonup> string"
  wroteHeader :: bool
  Code :: int
  Sent :: "string \<rightharpoonup> string"
  Body :: string

definition NewRecorder :: ResponseWriter where
  "NewRecorder = \<lparr>Header = Map.empty, wroteHeader = False, Code = 200, Sent = Map.empty, Body = []\<rparr>"

definition WriteHeader :: "ResponseWriter \<Rightarrow> int \<Rightarrow> ResponseWriter" where
  "WriteHeader w code =
     (if wroteHeader w then w else w\<lparr>wroteHeader := True, Code := code, Sent := Header w\<rparr>)"

definition Write :: "ResponseWriter \<Rightarrow> string \<Rightarrow> ResponseWriter" where
  "Write w bytes = (let w' = WriteHeader w 200 in w'\<lparr>Body := Body w' @ bytes\<rparr>)"

text \<open>\<^verbatim>\<open>http.Error(w, error, code)\<close>: sets the content type to plain text, writes the header and
  prints the message and a newline.\<close>

definition http_Error :: "ResponseWriter \<Rightarrow> string \<Rightarrow> int \<Rightarrow> ResponseWriter" where
  "http_Error w msg code =
     Write (WriteHeader
              (w\<lparr>Header := (Header w)(''Content-Type'' \<mapsto> ''text/plain; charset=utf-8'',
                                        ''X-Content-Type-Options'' \<mapsto> ''nosniff'')\<rparr>) code)
           (msg @ [CHR 0x0A])"

text \<open>\<^verbatim>\<open>http.NotFound(w, r)\<close> is \<^verbatim>\<open>http.Error(w, "404 page not found", StatusNotFound)\<close>.\<close>

definition http_NotFound :: "ResponseWriter \<Rightarrow> ResponseWriter" where
  "http_NotFound w = http_Error w ''404 page not found'' 404"

text \<open>\<^verbatim>\<open>http.StatusText\<close>: the reason phrase of a status code, the empty string for a code
  the table does not hold.\<close>

definition StatusText :: "int \<Rightarrow> string" where
  "StatusText code =
     (case map_of
        [(100, ''Continue''), (101, ''Switching Protocols''), (102, ''Processing''),
         (103, ''Early Hints''),
         (200, ''OK''), (201, ''Created''), (202, ''Accepted''),
         (203, ''Non-Authoritative Information''), (204, ''No Content''),
         (205, ''Reset Content''), (206, ''Partial Content''), (207, ''Multi-Status''),
         (208, ''Already Reported''), (226, ''IM Used''),
         (300, ''Multiple Choices''), (301, ''Moved Permanently''), (302, ''Found''),
         (303, ''See Other''), (304, ''Not Modified''), (305, ''Use Proxy''),
         (307, ''Temporary Redirect''), (308, ''Permanent Redirect''),
         (400, ''Bad Request''), (401, ''Unauthorized''), (402, ''Payment Required''),
         (403, ''Forbidden''), (404, ''Not Found''), (405, ''Method Not Allowed''),
         (406, ''Not Acceptable''), (407, ''Proxy Authentication Required''),
         (408, ''Request Timeout''), (409, ''Conflict''), (410, ''Gone''),
         (411, ''Length Required''), (412, ''Precondition Failed''),
         (413, ''Request Entity Too Large''), (414, ''Request URI Too Long''),
         (415, ''Unsupported Media Type''), (416, ''Requested Range Not Satisfiable''),
         (417, ''Expectation Failed''), (418, ''I'm a teapot''),
         (421, ''Misdirected Request''), (422, ''Unprocessable Entity''), (423, ''Locked''),
         (424, ''Failed Dependency''), (425, ''Too Early''), (426, ''Upgrade Required''),
         (428, ''Precondition Required''), (429, ''Too Many Requests''),
         (431, ''Request Header Fields Too Large''),
         (451, ''Unavailable For Legal Reasons''),
         (500, ''Internal Server Error''), (501, ''Not Implemented''), (502, ''Bad Gateway''),
         (503, ''Service Unavailable''), (504, ''Gateway Timeout''),
         (505, ''HTTP Version Not Supported''), (506, ''Variant Also Negotiates''),
         (507, ''Insufficient Storage''), (508, ''Loop Detected''), (510, ''Not Extended''),
         (511, ''Network Authentication Required'')] code
      of None \<Rightarrow> [] | Some phrase \<Rightarrow> phrase)"

text \<open>\<^verbatim>\<open>strconv.Itoa\<close>.\<close>

fun Itoa_nat :: "nat \<Rightarrow> string" where
  "Itoa_nat n =
     (if n < 10 then [char_of (48 + n)] else Itoa_nat (n div 10) @ [char_of (48 + n mod 10)])"

declare Itoa_nat.simps [simp del]

definition Itoa :: "int \<Rightarrow> string" where
  "Itoa i = (if i < 0 then CHR ''-'' # Itoa_nat (nat (- i)) else Itoa_nat (nat i))"

text \<open>\<^verbatim>\<open>path/filepath\<close> where the separator is the slash: \<^verbatim>\<open>FromSlash\<close> changes nothing,
  \<^verbatim>\<open>IsAbs\<close> tests for a leading slash, and \<^verbatim>\<open>Join\<close> drops leading empty elements, joins
  the rest with slashes and cleans the result (the empty string when every element is
  empty).\<close>

definition FromSlash :: "string \<Rightarrow> string" where
  "FromSlash path = path"

definition IsAbs :: "string \<Rightarrow> bool" where
  "IsAbs path = (case path of [] \<Rightarrow> False | c # _ \<Rightarrow> c = CHR ''/'')"

fun strings_Join :: "string list \<Rightarrow> string \<Rightarrow> string" where
  "strings_Join [] sep = []"
| "strings_Join [e] sep = e"
| "strings_Join (e # es) sep = e @ sep @ strings_Join es sep"

definition Join :: "string list \<Rightarrow> string" where
  "Join elem =
     (case dropWhile (\<lambda>e. e = []) elem of [] \<Rightarrow> [] | es \<Rightarrow> Clean (strings_Join es ''/''))"

section \<open>controller.go\<close>

type_synonym mimeTypeFormats = "string \<rightharpoonup> string"

definition MimeTypeFormats :: mimeTypeFormats where
  "MimeTypeFormats =
     [''application/json'' \<mapsto> ''json'', ''application/xml'' \<mapsto> ''xml'',
      ''text/html'' \<mapsto> ''html'', ''text/plain'' \<mapsto> ''txt'']"

text \<open>Reading a Go map at a key it does not hold gives the zero value, the empty string.\<close>

definition mimeTypeFormats_Get :: "mimeTypeFormats \<Rightarrow> string \<Rightarrow> string" where
  "mimeTypeFormats_Get m mimeType = (case m mimeType of None \<Rightarrow> [] | Some format \<Rightarrow> format)"

definition mimeTypeFormats_Set :: "mimeTypeFormats \<Rightarrow> string \<Rightarrow> string \<Rightarrow> mimeTypeFormats" where
  "mimeTypeFormats_Set m mimeType format = m(mimeType \<mapsto> format)"

definition mimeTypeFormats_Del :: "mimeTypeFormats \<Rightarrow> string \<Rightarrow> mimeTypeFormats" where
  "mimeTypeFormats_Del m mimeType = m(mimeType := None)"

text \<open>\<^verbatim>\<open>type Context map[string]interface{}\<close>; \<open>None\<close> is the nil map.\<close>

type_synonym 'v Context = "(string \<rightharpoonup> 'v) option"

text \<open>The \<^verbatim>\<open>*Response\<close> wrapper: the fields that the application sets. The
  \<^verbatim>\<open>http.ResponseWriter\<close> it embeds is kept beside it.\<close>

record Response =
  ContentType :: string
  StatusCode :: int

text \<open>
  The \<^verbatim>\<open>Controller\<close> struct. \<^verbatim>\<open>Request\<close>, \<^verbatim>\<open>Response\<close> and \<^verbatim>\<open>App\<close> are pointers: the
  record holds whether each is set (not nil), and the one response of the request is passed
  beside the controller.
\<close>

record 'v Controller =
  Name :: string
  Layout :: string
  Context :: "'v Context"
  Request :: bool
  Response :: bool
  Params :: "(string \<rightharpoonup> string list) option"
  App :: bool

datatype ('t, 'v) Result =
    ResultTemplate 't "'v Context"
  | ResultJSON "'v Context"
  | ResultXML "'v Context"
  | ResultPlainText string

text \<open>
  \<^verbatim>\<open>Config\<close> of kocha.go (the type of \<^verbatim>\<open>appConfig\<close>): the fields the modelled code reads.
  The template set returns nil for a template it does not hold; the middleware list is kept
  polymorphic, as the \<^verbatim>\<open>Middleware\<close> interface is declared further down.
\<close>

record ('t, 'm) Config =
  Addr :: string
  AppPath :: string
  AppName :: string
  DefaultLayout :: string
  TemplateSet_Get :: "string \<Rightarrow> string \<Rightarrow> string \<Rightarrow> 't option"
  TemplateSet_Ident :: "string \<Rightarrow> string \<Rightarrow> string \<Rightarrow> string"
  Middlewares :: "'m list"
  MaxClientBodySize :: int

definition Controller_Render ::
  "mimeTypeFormats \<Rightarrow> ('t, 'm) Config \<Rightarrow> 'v Controller \<Rightarrow> Response \<Rightarrow> 'v Context list
     \<Rightarrow> error + ('t, 'v) Result" where
  "Controller_Render m appConfig c response context =
     (case (case context of
              [] \<Rightarrow> Inr None
            | [ctx] \<Rightarrow> Inr ctx
            | _ \<Rightarrow> Inl TooManyArguments) of
        Inl err \<Rightarrow> Inl err
      | Inr ctx \<Rightarrow>
          if \<not> Controller.Response c then Inl NilPointerDereference
          else (let format = mimeTypeFormats_Get m (ContentType response) in
            if format = [] then Inl (UnknownContentType (ContentType response))
            else (case TemplateSet_Get appConfig (AppName appConfig) (Name c) format of
                    None \<Rightarrow> Inl (NoSuchTemplate
                              (TemplateSet_Ident appConfig (AppName appConfig) (Name c) format))
                  | Some t \<Rightarrow> Inr (ResultTemplate t ctx))))"

section \<open>renderer.go\<close>

text \<open>The \<^verbatim>\<open>data interface{}\<close> argument of the render functions: nil, a value of the
  \<^verbatim>\<open>Data\<close> map type, or any other value.\<close>

datatype 'd data = NilData | MapData "string \<rightharpoonup> 'd" | OtherData 'd

text \<open>
  The \<^verbatim>\<open>*Context\<close> struct that renderer.go works on (not the \<^verbatim>\<open>Context\<close> map of
  controller.go): the fields the render functions read and write, with the response wrapper
  and the response writer it embeds.
\<close>

record 'd Context_struct =
  Name :: string
  Layout :: string
  Format :: string
  Data :: "'d data"
  Response :: Response
  Writer :: ResponseWriter

text \<open>A template is what \<^verbatim>\<open>Execute\<close> makes of it: the bytes it renders for a context, or
  an error.\<close>

type_synonym 'd Template = "'d Context_struct \<Rightarrow> error + string"

text \<open>What \<^verbatim>\<open>ResourceSet.Get\<close> returns besides nil: a string, a byte slice, or a value of
  another type.\<close>

datatype resource = ResourceString string | ResourceBytes string | ResourceOther

record Request =
  URL_Path :: string
  Form :: "string \<rightharpoonup> string list"
  ParseMultipartForm :: "error option"

text \<open>\<^verbatim>\<open>Application\<close> of kocha.go. The router, the template set and the resource set are
  collaborators: each is the function that the modelled code calls.\<close>

record ('t, 'm, 'r) Application =
  Config :: "('t, 'm) Config"
  Router_dispatch :: "Request \<Rightarrow> 'r option"
  Template_Get :: "string \<Rightarrow> string \<Rightarrow> string \<Rightarrow> string \<Rightarrow> error + 't"
  ResourceSet_Get :: "string \<Rightarrow> resource option"

text \<open>The operating system and the \<^verbatim>\<open>kocha/util\<close> package, as \<^verbatim>\<open>SendFile\<close> calls
  them.\<close>

record Env =
  os_Stat :: "string \<Rightarrow> error option"
  os_Open :: "string \<Rightarrow> error + string"
  DetectContentTypeByExt :: "string \<Rightarrow> string"
  DetectContentTypeByBody :: "string \<Rightarrow> string"

definition StaticDir :: string where
  "StaticDir = ''public''"

text \<open>
  Modelled from the spec: \<^verbatim>\<open>Context.setData\<close> is not in the sources. The comment of
  \<^verbatim>\<open>Render\<close> gives its rules: data of the \<^verbatim>\<open>Data\<close> type is merged into \<^verbatim>\<open>Context.Data\<close>,
  data of another type replaces it, nil leaves it as it is.
\<close>

definition setData :: "'d Context_struct \<Rightarrow> 'd data \<Rightarrow> 'd Context_struct" where
  "setData c d =
     (case d of
        NilData \<Rightarrow> c
      | OtherData x \<Rightarrow> c\<lparr>Data := OtherData x\<rparr>
      | MapData m \<Rightarrow>
          (case Data c of
             MapData m0 \<Rightarrow> c\<lparr>Data := MapData (m0 ++ m)\<rparr>
           | _ \<Rightarrow> c\<lparr>Data := MapData m\<rparr>))"

text \<open>
  Modelled from the spec: \<^verbatim>\<open>Context.setContentTypeIfNotExists\<close> is not in the sources. The
  spec: if the handler has not explicitly set a response content type, default to the one
  given.
\<close>

definition setContentTypeIfNotExists :: "'d Context_struct \<Rightarrow> string \<Rightarrow> 'd Context_struct" where
  "setContentTypeIfNotExists c contentType =
     (if ContentType (Response c) = [] then c\<lparr>Response := (Response c)\<lparr>ContentType := contentType\<rparr>\<rparr>
      else c)"

text \<open>
  Modelled from the spec: \<^verbatim>\<open>Context.setFormatFromContentTypeIfNotExists\<close> is not in the
  sources. The spec: the format is derived from the fixed mapping of MIME type to format; an
  unrecognized content type is a hard error. As the name says, a format that is already set
  is kept.
\<close>

definition setFormatFromContentTypeIfNotExists ::
  "mimeTypeFormats \<Rightarrow> 'd Context_struct \<Rightarrow> 'd Context_struct \<times> error option" where
  "setFormatFromContentTypeIfNotExists m c =
     (if Format c \<noteq> [] then (c, None)
      else (let c' = c\<lparr>Format := mimeTypeFormats_Get m (ContentType (Response c))\<rparr> in
        if Format c' = [] then (c', Some (UnknownContentType (ContentType (Response c))))
        else (c', None)))"

text \<open>
  Modelled from the spec: \<^verbatim>\<open>Context.render\<close> is not in the sources. The spec: the
  resulting bytes are written with the resolved content type; the renderer sets the
  \<^verbatim>\<open>Content-Type\<close> header, and the status is the response's status code.
\<close>

definition Context_render :: "'d Context_struct \<Rightarrow> string \<Rightarrow> 'd Context_struct \<times> error option" where
  "Context_render c bytes =
     (let w = (Writer c)\<lparr>Header := (Header (Writer c))(''Content-Type'' \<mapsto> ContentType (Response c))\<rparr>
      in (c\<lparr>Writer := Write (WriteHeader w (StatusCode (Response c))) bytes\<rparr>, None))"

text \<open>
  Modelled from the spec: \<^verbatim>\<open>errorTemplateName\<close> is not in the sources. The spec: the
  template is named after the numeric status code; the comment of \<^verbatim>\<open>RenderError\<close> gives
  \<^verbatim>\<open>errors/500.xml\<close> for status 500 and format xml.
\<close>

definition errorTemplateName :: "int \<Rightarrow> string" where
  "errorTemplateName statusCode = ''errors/'' @ Itoa statusCode"


definition RenderText :: "'d Context_struct \<Rightarrow> string \<Rightarrow> 'd Context_struct \<times> error option" where
  "RenderText c content = Context_render (setContentTypeIfNotExists c ''text/plain'') content"

definition RenderError ::
  "mimeTypeFormats \<Rightarrow> ('d Template, 'm, 'r) Application \<Rightarrow> 'd Context_struct \<Rightarrow> int \<Rightarrow> 'd data
     \<Rightarrow> 'd Context_struct \<times> error option" where
  "RenderError m app c statusCode d =
     (case setFormatFromContentTypeIfNotExists m
             (setContentTypeIfNotExists (setData c d) ''text/html'') of
        (c, Some err) \<Rightarrow> (c, Some err)
      | (c, None) \<Rightarrow>
          (let c = c\<lparr>Response := (Response c)\<lparr>StatusCode := statusCode\<rparr>\<rparr>;
               c = c\<lparr>Name := errorTemplateName statusCode\<rparr>
           in case Template_Get app (AppName (Config app)) (Layout c) (Name c) (Format c) of
                Inl err \<Rightarrow>
                  Context_render (c\<lparr>Response := (Response c)\<lparr>ContentType := ''text/plain''\<rparr>\<rparr>)
                    (StatusText statusCode)
              | Inr t \<Rightarrow>
                  (case t c of
                     Inl err \<Rightarrow> (c, Some err)
                   | Inr buf \<Rightarrow> Context_render c buf)))"

text \<open>
  \<^verbatim>\<open>SendFile\<close>. The resource set is asked first, for every path; a resource that is neither
  a string nor a byte slice leaves \<^verbatim>\<open>file\<close> nil. Only then is a path that is not absolute
  joined to \<^verbatim>\<open>AppPath\<close> and \<^verbatim>\<open>StaticDir\<close> and read from the file system.
\<close>

definition SendFile_send :: "Env \<Rightarrow> 'd Context_struct \<Rightarrow> string \<Rightarrow> string
     \<Rightarrow> 'd Context_struct \<times> error option" where
  "SendFile_send env c path file =
     (let c = c\<lparr>Response := (Response c)\<lparr>ContentType := DetectContentTypeByExt env path\<rparr>\<rparr>;
          c = (if ContentType (Response c) = []
               then c\<lparr>Response := (Response c)\<lparr>ContentType := DetectContentTypeByBody env file\<rparr>\<rparr>
               else c)
      in Context_render c file)"

definition SendFile ::
  "mimeTypeFormats \<Rightarrow> Env \<Rightarrow> ('d Template, 'm, 'r) Application \<Rightarrow> 'd Context_struct \<Rightarrow> string
     \<Rightarrow> 'd Context_struct \<times> error option" where
  "SendFile m env app c path =
     (let path = FromSlash path;
          file = (case ResourceSet_Get app path of
                    Some (ResourceString b) \<Rightarrow> Some b
                  | Some (ResourceBytes b) \<Rightarrow> Some b
                  | _ \<Rightarrow> None)
      in case file of
           Some b \<Rightarrow> SendFile_send env c path b
         | None \<Rightarrow>
             (let path = (if \<not> IsAbs path then Join [AppPath (Config app), StaticDir, path]
                          else path)
              in case os_Stat env path of
                   Some err \<Rightarrow> RenderError m app c 404 NilData
                 | None \<Rightarrow>
                     (case os_Open env path of
                        Inl err \<Rightarrow> (c, Some err)
                      | Inr f \<Rightarrow> SendFile_send env c path f)))"

section \<open>kocha.go: the dispatcher\<close>

text \<open>
  What application code (a middleware hook, a controller method) reaches from the
  \<^verbatim>\<open>*Controller\<close> it is given: the controller, the response wrapper behind
  \<^verbatim>\<open>cc.Response\<close>, and the header map of the response writer. Application code sets these;
  the status line and the body are written by the dispatcher, by \<^verbatim>\<open>Result.Proc\<close> and by
  \<^verbatim>\<open>http.Error\<close> only.
\<close>

record 'v Scope =
  scope_cc :: "'v Controller"
  scope_response :: Response
  scope_header :: "string \<rightharpoonup> string"

text \<open>The \<^verbatim>\<open>Middleware\<close> interface: \<^verbatim>\<open>Before(app, cc)\<close> and \<^verbatim>\<open>After(app, cc)\<close>. A hook
  returns what it left behind and the panic it raised, if any.\<close>

record 'v Middleware =
  Before :: "'v Scope \<Rightarrow> 'v Scope \<times> error option"
  After :: "'v Scope \<Rightarrow> 'v Scope \<times> error option"

text \<open>A template of a \<^verbatim>\<open>ResultTemplate\<close>, as \<^verbatim>\<open>Execute\<close> renders it on a context.\<close>

type_synonym 'v ResultTemplate = "'v Context \<Rightarrow> error + string"

text \<open>The \<^verbatim>\<open>Controller\<close> field of the controller that the router resolved: a
  \<^verbatim>\<open>Controller\<close> value (with the value found there), a \<^verbatim>\<open>*Controller\<close>, or anything
  else.\<close>

datatype 'v ControllerField = ByValue "'v Controller" | ByPointer | OtherType

text \<open>
  What \<^verbatim>\<open>dispatch\<close> returns for a matched route: the controller (the name of its type and
  its \<^verbatim>\<open>Controller\<close> field) and the method bound to it with its arguments. Calling the
  method gives the values it returns, or the panic it raised.
\<close>

record 'v Target =
  TypeName :: string
  Field :: "'v ControllerField"
  Method :: "'v Scope \<Rightarrow> 'v Scope \<times> (error + ('v ResultTemplate, 'v) Result list)"

type_synonym 'v App = "('v ResultTemplate, 'v Middleware, 'v Target) Application"

record 'v Encoders =
  json_Marshal :: "'v Context \<Rightarrow> error + string"
  xml_Marshal :: "'v Context \<Rightarrow> error + string"

datatype log_entry = LogError error | LogStack | LogErrorAndStack error

datatype call = CallBefore nat | CallAfter nat | CallMethod | CallErrorGet int | CallProc

text \<open>
  The state of one run of \<^verbatim>\<open>Application.render\<close>: its local \<^verbatim>\<open>cc\<close> (nil at first), the
  response wrapper and the response writer it embeds, what was logged, and a record of the
  calls made into application code, in order.
\<close>

record 'v RenderState =
  rs_cc :: "'v Controller option"
  rs_response :: Response
  rs_writer :: ResponseWriter
  rs_Log :: "log_entry list"
  rs_calls :: "call list"

text \<open>
  Modelled from the spec: \<^verbatim>\<open>Result.Proc\<close> is not in the sources. The spec: a template is
  executed and the resulting bytes are written, JSON and XML payloads are encoded, plain
  text is written verbatim; a failing template or encoder is a render fault.
\<close>

definition Result_Proc ::
  "'v Encoders \<Rightarrow> ('v ResultTemplate, 'v) Result \<Rightarrow> ResponseWriter \<Rightarrow> ResponseWriter \<times> error option" where
  "Result_Proc enc result w =
     (case (case result of
              ResultTemplate t ctx \<Rightarrow> t ctx
            | ResultJSON ctx \<Rightarrow> json_Marshal enc ctx
            | ResultXML ctx \<Rightarrow> xml_Marshal enc ctx
            | ResultPlainText content \<Rightarrow> Inr content) of
        Inl err \<Rightarrow> (w, Some err)
      | Inr bytes \<Rightarrow> (Write w bytes, None))"

text \<open>
  Modelled from the spec: \<^verbatim>\<open>newResponse\<close> is not in the sources. The spec: the response
  wrapper starts with status 200 and no content type set.
\<close>

definition newResponse :: Response where
  "newResponse = \<lparr>ContentType = [], StatusCode = 200\<rparr>"

text \<open>
  Modelled from the spec: \<^verbatim>\<open>NewErrorController(statusCode)\<close> and its \<^verbatim>\<open>Get\<close> are not in the
  sources. The spec: an error Result is rendered using the application's error-template
  convention: the content type defaults to \<^verbatim>\<open>text/html\<close>, a content type without format is
  a fault, the status becomes the status code, and the Result is the template named after the
  status code in the resolved format or, if there is none, the reason phrase as plain text
  with content type \<^verbatim>\<open>text/plain\<close>. It reads and writes the response behind
  \<^verbatim>\<open>c.Response\<close>, which must not be nil.
\<close>

definition ErrorController_Get ::
  "mimeTypeFormats \<Rightarrow> 'v App \<Rightarrow> int \<Rightarrow> 'v Scope
     \<Rightarrow> 'v Scope \<times> (error + ('v ResultTemplate, 'v) Result list)" where
  "ErrorController_Get m app statusCode sc =
     (if \<not> Controller.Response (scope_cc sc) then (sc, Inl NilPointerDereference)
      else (let r = scope_response sc;
                r = (if ContentType r = [] then r\<lparr>ContentType := ''text/html''\<rparr> else r);
                format = mimeTypeFormats_Get m (ContentType r)
            in if format = []
               then (sc\<lparr>scope_response := r\<rparr>, Inl (UnknownContentType (ContentType r)))
               else (let r = r\<lparr>StatusCode := statusCode\<rparr> in
                 case Template_Get app (AppName (Config app)) (Controller.Layout (scope_cc sc))
                        (errorTemplateName statusCode) format of
                   Inr t \<Rightarrow> (sc\<lparr>scope_response := r\<rparr>,
                              Inr [ResultTemplate t (Context (scope_cc sc))])
                 | Inl err \<Rightarrow> (sc\<lparr>scope_response := r\<lparr>ContentType := ''text/plain''\<rparr>\<rparr>,
                               Inr [ResultPlainText (StatusText statusCode)]))))"

text \<open>Calling application code on the controller \<open>c\<close>: it works on the response wrapper
  and the header map of this request, and what it leaves there stays.\<close>

definition call_scope ::
  "('v Scope \<Rightarrow> 'v Scope \<times> 'x) \<Rightarrow> 'v Controller \<Rightarrow> 'v RenderState \<Rightarrow> ('v Controller \<times> 'v RenderState) \<times> 'x" where
  "call_scope f c s =
     (case f \<lparr>scope_cc = c, scope_response = rs_response s, scope_header = Header (rs_writer s)\<rparr> of
        (sc, x) \<Rightarrow>
          ((scope_cc sc,
            s\<lparr>rs_response := scope_response sc,
              rs_writer := (rs_writer s)\<lparr>Header := scope_header sc\<rparr>\<rparr>), x))"

text \<open>A hook called on \<^verbatim>\<open>cc\<close>; through a pointer, so the controller it leaves is \<^verbatim>\<open>*cc\<close>.\<close>

definition call_hook ::
  "('v Scope \<Rightarrow> 'v Scope \<times> error option) \<Rightarrow> 'v RenderState \<Rightarrow> 'v RenderState \<times> error option" where
  "call_hook h s =
     (case rs_cc s of
        None \<Rightarrow> (s, Some NilPointerDereference)
      | Some c \<Rightarrow> (case call_scope h c s of ((c', s'), e) \<Rightarrow> (s'\<lparr>rs_cc := Some c'\<rparr>, e)))"

text \<open>
  \<^verbatim>\<open>for _, m := range app.Config.Middlewares { m.Before(app, cc) }\<close> and the same loop
  over \<^verbatim>\<open>After\<close>: the hook \<open>hook m\<close> of each middleware in the order of the list, from
  index \<open>i\<close> on, each call recorded as \<open>mk i\<close>; a panic ends the loop.
\<close>

fun run_hooks ::
  "('v Middleware \<Rightarrow> 'v Scope \<Rightarrow> 'v Scope \<times> error option) \<Rightarrow> (nat \<Rightarrow> call)
     \<Rightarrow> 'v Middleware list \<Rightarrow> nat \<Rightarrow> 'v RenderState \<Rightarrow> 'v RenderState \<times> error option" where
  "run_hooks hook mk [] i s = (s, None)"
| "run_hooks hook mk (m # ms) i s =
     (case call_hook (hook m) (s\<lparr>rs_calls := rs_calls s @ [mk i]\<rparr>) of
        (s', Some err) \<Rightarrow> (s', Some err)
      | (s', None) \<Rightarrow> run_hooks hook mk ms (Suc i) s')"

definition run_Before :: "'v App \<Rightarrow> 'v RenderState \<Rightarrow> 'v RenderState \<times> error option" where
  "run_Before app s = run_hooks Before CallBefore (Middlewares (Config app)) 0 s"

definition run_After :: "'v App \<Rightarrow> 'v RenderState \<Rightarrow> 'v RenderState \<times> error option" where
  "run_After app s = run_hooks After CallAfter (Middlewares (Config app)) 0 s"

text \<open>The zero \<^verbatim>\<open>Controller{}\<close>.\<close>

definition zero_Controller :: "'v Controller" where
  "zero_Controller =
     \<lparr>Controller.Name = [], Controller.Layout = [], Context = None, Request = False,
      Controller.Response = False, Params = None, App = False\<rparr>"

text \<open>
  The body of \<^verbatim>\<open>Application.render\<close> up to the \<^verbatim>\<open>Before\<close> loop: \<^verbatim>\<open>cc\<close> is taken from the
  \<^verbatim>\<open>Controller\<close> field (a field of another type is a panic, with \<^verbatim>\<open>cc\<close> still nil), the
  form is parsed (an error other than \<^verbatim>\<open>ErrNotMultipart\<close> is a panic, with \<^verbatim>\<open>cc\<close> not yet
  filled in), and the fields of \<^verbatim>\<open>cc\<close> are set.
\<close>

definition render_setup ::
  "'v App \<Rightarrow> 'v Target \<Rightarrow> Request \<Rightarrow> 'v RenderState \<Rightarrow> 'v RenderState \<times> error option" where
  "render_setup app tgt request s =
     (case Field tgt of
        OtherType \<Rightarrow> (s, Some BugControllerField)
      | field \<Rightarrow>
          (let c = (case field of ByValue c \<Rightarrow> c | _ \<Rightarrow> zero_Controller);
               s = s\<lparr>rs_cc := Some c\<rparr>
           in case ParseMultipartForm request of
                Some err \<Rightarrow>
                  if err \<noteq> ErrNotMultipart then (s, Some err)
                  else (s\<lparr>rs_cc := Some (c\<lparr>Controller.Name := TypeName tgt,
                           Controller.Layout := DefaultLayout (Config app),
                           Context := Some Map.empty, Request := True,
                           Controller.Response := True, Params := Some (Form request),
                           App := True\<rparr>)\<rparr>, None)
              | None \<Rightarrow>
                  (s\<lparr>rs_cc := Some (c\<lparr>Controller.Name := TypeName tgt,
                           Controller.Layout := DefaultLayout (Config app),
                           Context := Some Map.empty, Request := True,
                           Controller.Response := True, Params := Some (Form request),
                           App := True\<rparr>)\<rparr>, None)))"

text \<open>
  \<^verbatim>\<open>result = method.Call(args)\<close>. The method works on the controller it is bound to: on
  \<^verbatim>\<open>*cc\<close> itself when the \<^verbatim>\<open>Controller\<close> field is a pointer, on the copy that
  \<^verbatim>\<open>ccValue.Set(reflect.ValueOf(*cc))\<close> made when it is a value (then \<^verbatim>\<open>cc\<close> keeps what
  the \<^verbatim>\<open>Before\<close> hooks left).
\<close>

definition call_Method ::
  "'v Target \<Rightarrow> 'v RenderState \<Rightarrow> 'v RenderState \<times> (error + ('v ResultTemplate, 'v) Result list)" where
  "call_Method tgt s =
     (case rs_cc s of
        None \<Rightarrow> (s, Inl NilPointerDereference)
      | Some c \<Rightarrow>
          (case call_scope (Method tgt) c (s\<lparr>rs_calls := rs_calls s @ [CallMethod]\<rparr>) of
             ((c', s'), r) \<Rightarrow>
               ((case Field tgt of ByPointer \<Rightarrow> s'\<lparr>rs_cc := Some c'\<rparr> | _ \<Rightarrow> s'), r)))"

text \<open>
  The body of \<^verbatim>\<open>Application.render\<close>, from the first statement after the \<^verbatim>\<open>defer\<close> to the
  call of the method: the state it ends in, and the values the method returned or the panic
  that ended it.
\<close>

definition render_body ::
  "'v App \<Rightarrow> 'v Target \<Rightarrow> Request \<Rightarrow> 'v RenderState
     \<Rightarrow> 'v RenderState \<times> (error + ('v ResultTemplate, 'v) Result list)" where
  "render_body app tgt request s =
     (case render_setup app tgt request s of
        (s, Some err) \<Rightarrow> (s, Inl err)
      | (s, None) \<Rightarrow>
          (case run_Before app s of
             (s, Some err) \<Rightarrow> (s, Inl err)
           | (s, None) \<Rightarrow> call_Method tgt s))"

definition logStackAndError :: "error \<Rightarrow> 'v RenderState \<Rightarrow> 'v RenderState" where
  "logStackAndError err s = s\<lparr>rs_Log := rs_Log s @ [LogErrorAndStack err]\<rparr>"

text \<open>
  The first part of the deferred function: \<^verbatim>\<open>if err := recover(); err != nil\<close>. After a
  panic of the body it logs, gives the error controller for status 500 the controller
  \<^verbatim>\<open>cc\<close> (a new one with the request and the response if \<^verbatim>\<open>cc\<close> is nil) and takes the
  Result of its \<^verbatim>\<open>Get\<close>, which may panic in turn.
\<close>

definition render_recover ::
  "mimeTypeFormats \<Rightarrow> 'v App \<Rightarrow> 'v RenderState \<Rightarrow> (error + ('v ResultTemplate, 'v) Result list)
     \<Rightarrow> 'v RenderState \<times> (error + ('v ResultTemplate, 'v) Result list)" where
  "render_recover m app s r =
     (case r of
        Inr result \<Rightarrow> (s, Inr result)
      | Inl err \<Rightarrow>
          (let s = logStackAndError err s;
               cc = (case rs_cc s of
                       None \<Rightarrow> zero_Controller\<lparr>Request := True, Controller.Response := True\<rparr>
                     | Some c \<Rightarrow> c)
           in case call_scope (ErrorController_Get m app 500) cc
                     (s\<lparr>rs_cc := Some cc, rs_calls := rs_calls s @ [CallErrorGet 500]\<rparr>) of
                ((c', s'), r') \<Rightarrow> (s'\<lparr>rs_cc := Some c'\<rparr>, r')))"

text \<open>\<^verbatim>\<open>response.WriteHeader(response.StatusCode)\<close> and
  \<^verbatim>\<open>result[0].Interface().(Result).Proc(response)\<close>.\<close>

definition render_write ::
  "'v Encoders \<Rightarrow> 'v RenderState \<Rightarrow> ('v ResultTemplate, 'v) Result list
     \<Rightarrow> 'v RenderState \<times> error option" where
  "render_write enc s result =
     (let s = s\<lparr>rs_writer := WriteHeader (rs_writer s) (StatusCode (rs_response s))\<rparr> in
      case result of
        [] \<Rightarrow> (s, Some (IndexOutOfRange 0 0))
      | res # _ \<Rightarrow>
          (case Result_Proc enc res (rs_writer s) of
             (w, e) \<Rightarrow> (s\<lparr>rs_writer := w, rs_calls := rs_calls s @ [CallProc]\<rparr>, e)))"

text \<open>
  The deferred function of \<^verbatim>\<open>Application.render\<close> without its own deferred recovery:
  the recovery above, the \<^verbatim>\<open>After\<close> hooks, the header and the Result. It ends with the
  panic raised in it, if any; a panic skips what follows it.
\<close>

definition render_deferred ::
  "mimeTypeFormats \<Rightarrow> 'v Encoders \<Rightarrow> 'v App \<Rightarrow> 'v RenderState
     \<Rightarrow> (error + ('v ResultTemplate, 'v) Result list) \<Rightarrow> 'v RenderState \<times> error option" where
  "render_deferred m enc app s r =
     (case render_recover m app s r of
        (s, Inl err) \<Rightarrow> (s, Some err)
      | (s, Inr result) \<Rightarrow>
          (case run_After app s of
             (s, Some err) \<Rightarrow> (s, Some err)
           | (s, None) \<Rightarrow> render_write enc s result))"

text \<open>The recovery deferred inside the deferred function: it logs, sets status 500 and
  answers with \<^verbatim>\<open>http.Error\<close>.\<close>

definition render_recover_inner :: "error \<Rightarrow> 'v RenderState \<Rightarrow> 'v RenderState" where
  "render_recover_inner err s =
     (let s = logStackAndError err s;
          s = s\<lparr>rs_response := (rs_response s)\<lparr>StatusCode := 500\<rparr>\<rparr>
      in s\<lparr>rs_writer := http_Error (rs_writer s) (StatusText (StatusCode (rs_response s)))
                          (StatusCode (rs_response s))\<rparr>)"

text \<open>The state in which \<^verbatim>\<open>Application.render\<close> starts on the response writer \<open>w\<close>.\<close>

definition render_init :: "ResponseWriter \<Rightarrow> 'v RenderState" where
  "render_init w =
     \<lparr>rs_cc = None, rs_response = newResponse, rs_writer = w, rs_Log = [], rs_calls = []\<rparr>"

text \<open>
  \<^verbatim>\<open>Application.render\<close>: the body, the deferred function, and the recovery deferred inside
  it, which logs, sets status 500 and answers with \<^verbatim>\<open>http.Error\<close>. The second component is
  a panic that leaves \<^verbatim>\<open>render\<close>.
\<close>

definition render ::
  "mimeTypeFormats \<Rightarrow> 'v Encoders \<Rightarrow> 'v App \<Rightarrow> 'v Target \<Rightarrow> Request \<Rightarrow> ResponseWriter
     \<Rightarrow> 'v RenderState \<times> error option" where
  "render m enc app tgt request w =
     (case render_body app tgt request (render_init w) of
           (s, r) \<Rightarrow>
             (case render_deferred m enc app s r of
                (s, None) \<Rightarrow> (s, None)
              | (s, Some err) \<Rightarrow> (render_recover_inner err s, None)))"

text \<open>\<^verbatim>\<open>Application.ServeHTTP\<close>: with no route matched, the error controller for status 404
  (its \<^verbatim>\<open>Controller\<close> field is a pointer) takes the place of the controller, and \<^verbatim>\<open>render\<close>
  runs as for any other.\<close>

definition ServeHTTP ::
  "mimeTypeFormats \<Rightarrow> 'v Encoders \<Rightarrow> 'v App \<Rightarrow> Request \<Rightarrow> ResponseWriter
     \<Rightarrow> 'v RenderState \<times> error option" where
  "ServeHTTP m enc app r w =
     (case Router_dispatch app r of
        None \<Rightarrow>
          render m enc app
            \<lparr>TypeName = ''ErrorController'', Field = ByPointer,
             Method = ErrorController_Get m app 404\<rparr> r w
      | Some tgt \<Rightarrow> render m enc app tgt r w)"

definition before_calls :: "call list \<Rightarrow> nat list" where
  "before_calls cs = concat (map (\<lambda>c. case c of CallBefore i \<Rightarrow> [i] | _ \<Rightarrow> []) cs)"

definition after_calls :: "call list \<Rightarrow> nat list" where
  "after_calls cs = concat (map (\<lambda>c. case c of CallAfter i \<Rightarrow> [i] | _ \<Rightarrow> []) cs)"

text \<open>Two response writers have sent the same: status line, header fields and body.\<close>

definition same_sent :: "ResponseWriter \<Rightarrow> ResponseWriter \<Rightarrow> bool" where
  "same_sent w w' \<longleftrightarrow>
     wroteHeader w' = wroteHeader w \<and> Code w' = Code w \<and> Sent w' = Sent w \<and> Body w' = Body w"

section \<open>server.go\<close>

text \<open>
  What the requests of one server share: the route table that \<^verbatim>\<open>dispatch\<close> reads and the
  output of the standard logger.
\<close>

record 'v Server =
  routes :: "Request \<Rightarrow> 'v Target option"
  log_output :: "log_entry list"

text \<open>
  Modelled from the spec: \<^verbatim>\<open>dispatch\<close> is not in the sources. The spec: the route table is
  built once and read-only thereafter; resolving a request gives the matched handler or no
  match.
\<close>

definition dispatch :: "'v Server \<Rightarrow> Request \<Rightarrow> 'v Target option" where
  "dispatch srv req = routes srv req"

text \<open>
  Modelled from the spec: \<^verbatim>\<open>NewResponse\<close> of this version is not in the sources. The spec:
  status 200, and content type \<^verbatim>\<open>text/html\<close> when the handler sets none.
\<close>

definition NewResponse :: Response where
  "NewResponse = \<lparr>ContentType = ''text/html'', StatusCode = 200\<rparr>"

text \<open>The statements of \<^verbatim>\<open>handler\<close> after its \<^verbatim>\<open>defer\<close>: the writer they leave and the panic
  that ended them, if any.\<close>

definition handler_body ::
  "'v Encoders \<Rightarrow> 'v Target \<Rightarrow> ResponseWriter \<Rightarrow> ResponseWriter \<times> error option" where
  "handler_body enc tgt writer =
     (case Field tgt of
        ByValue c \<Rightarrow>
          (let c = c\<lparr>Controller.Name := TypeName tgt, Request := True, Controller.Response := True\<rparr>
           in case Method tgt \<lparr>scope_cc = c, scope_response = NewResponse,
                                scope_header = Header writer\<rparr> of
                (sc, Inl err) \<Rightarrow> (writer\<lparr>Header := scope_header sc\<rparr>, Some err)
              | (sc, Inr []) \<Rightarrow> (writer\<lparr>Header := scope_header sc\<rparr>, Some (IndexOutOfRange 0 0))
              | (sc, Inr (res # _)) \<Rightarrow> Result_Proc enc res (writer\<lparr>Header := scope_header sc\<rparr>))
      | _ \<Rightarrow> (writer, Some (OtherError ''reflect: call of reflect.Value.FieldByName on ptr Value'')))"

definition handler ::
  "'v Encoders \<Rightarrow> 'v Server \<Rightarrow> Request \<Rightarrow> ResponseWriter
     \<Rightarrow> ('v Server \<times> ResponseWriter) \<times> error option" where
  "handler enc srv req writer =
     (case dispatch srv req of
        None \<Rightarrow> ((srv, http_NotFound writer), None)
      | Some tgt \<Rightarrow>
          (case handler_body enc tgt writer of
             (w, None) \<Rightarrow> ((srv, w), None)
           | (w, Some err) \<Rightarrow>
               ((srv\<lparr>log_output := log_output srv @ [LogError err, LogStack]\<rparr>,
                 http_Error w ''500 Internal Server Error'' 500), None)))"

text \<open>Requests served one after the other, each on a recorder of its own, as the test
  does.\<close>

fun serve :: "'v Encoders \<Rightarrow> 'v Server \<Rightarrow> Request list \<Rightarrow> 'v Server \<times> ResponseWriter list" where
  "serve enc srv [] = (srv, [])"
| "serve enc srv (req # reqs) =
     (case handler enc srv req NewRecorder of
        ((srv', w), _) \<Rightarrow> (case serve enc srv' reqs of (srv'', ws) \<Rightarrow> (srv'', w # ws)))"

section \<open>Example configurations\<close>

text \<open>Concrete applications, contexts and environments, on which the theorems are evaluated.\<close>

definition example_Config :: "(string, 'm) Config" where
  "example_Config =
     \<lparr>Addr = ''127.0.0.1:9100'', AppPath = ''/srv/app'', AppName = ''app'', DefaultLayout = ''app'',
      TemplateSet_Get = (\<lambda>appName name format.
         if appName = ''app'' \<and> name = ''root'' \<and> format = ''html'' then Some ''root.html'' else None),
      TemplateSet_Ident = (\<lambda>appName name format. appName @ '':'' @ name @ ''.'' @ format),
      Middlewares = [], MaxClientBodySize = 10485760\<rparr>"

definition example_Controller :: "unit Controller" where
  "example_Controller =
     \<lparr>Controller.Name = ''root'', Controller.Layout = ''app'', Context = None, Request = True,
      Controller.Response = True, Params = None, App = True\<rparr>"

definition example_Application :: "(unit Template, unit, unit) Application" where
  "example_Application =
     \<lparr>Config = \<lparr>Addr = ''127.0.0.1:9100'', AppPath = ''/srv/app'', AppName = ''app'',
                DefaultLayout = ''app'', TemplateSet_Get = (\<lambda>appName name format. None),
                TemplateSet_Ident = (\<lambda>appName name format. name), Middlewares = [],
                MaxClientBodySize = 10485760\<rparr>,
      Router_dispatch = (\<lambda>r. None),
      Template_Get = (\<lambda>appName layout name format.
         if name = ''root'' \<and> format = ''html'' then Inr (\<lambda>c. Inr ''tmpl1'')
         else if name = ''errors/500'' \<and> format = ''html''
           then Inr (\<lambda>c. Inl (OtherError ''template: execution failed''))
         else Inl (NoSuchTemplate name)),
      ResourceSet_Get = (\<lambda>path.
         if path = ''/srv/data/report.txt'' then Some (ResourceString ''embedded copy'')
         else None)\<rparr>"

definition example_Context :: "unit Context_struct" where
  "example_Context =
     \<lparr>Name = ''root'', Layout = ''app'', Format = [], Data = NilData,
      Response = \<lparr>ContentType = [], StatusCode = 200\<rparr>, Writer = NewRecorder\<rparr>"

definition example_Env :: Env where
  "example_Env =
     \<lparr>os_Stat = (\<lambda>path. if path = ''/srv/data/report.txt'' then None
                        else Some (OtherError ''no such file or directory'')),
      os_Open = (\<lambda>path. if path = ''/srv/data/report.txt'' then Inr ''file on disk''
                        else Inl (OtherError ''no such file or directory'')),
      DetectContentTypeByExt = (\<lambda>path. ''text/plain''),
      DetectContentTypeByBody = (\<lambda>body. ''application/octet-stream'')\<rparr>"

definition example_Encoders :: "unit Encoders" where
  "example_Encoders = \<lparr>json_Marshal = (\<lambda>ctx. Inr ''{}''), xml_Marshal = (\<lambda>ctx. Inr ''<xml/>'')\<rparr>"

text \<open>A middleware that leaves everything as it is, and one whose \<^verbatim>\<open>After\<close> panics.\<close>

definition idle_Middleware :: "unit Middleware" where
  "idle_Middleware = \<lparr>Before = (\<lambda>sc. (sc, None)), After = (\<lambda>sc. (sc, None))\<rparr>"

definition failing_After_Middleware :: "unit Middleware" where
  "failing_After_Middleware =
     \<lparr>Before = (\<lambda>sc. (sc, None)), After = (\<lambda>sc. (sc, Some (OtherError ''session store down'')))\<rparr>"

definition root_Target :: "unit Target" where
  "root_Target =
     \<lparr>TypeName = ''Root'', Field = ByValue zero_Controller,
      Method = (\<lambda>sc. (sc, Inr [ResultPlainText ''tmpl1'']))\<rparr>"

definition example_App :: "unit Middleware list \<Rightarrow> unit App" where
  "example_App ms =
     \<lparr>Config = \<lparr>Addr = ''127.0.0.1:9100'', AppPath = ''/srv/app'', AppName = ''app'',
                DefaultLayout = ''app'', TemplateSet_Get = (\<lambda>appName name format. None),
                TemplateSet_Ident = (\<lambda>appName name format. name), Middlewares = ms,
                MaxClientBodySize = 10485760\<rparr>,
      Router_dispatch = (\<lambda>r. if URL_Path r = ''/'' then Some root_Target else None),
      Template_Get = (\<lambda>appName layout name format.
         if name = ''errors/500'' \<and> format = ''html'' then Inr (\<lambda>ctx. Inr ''<h1>500</h1>'')
         else Inl (NoSuchTemplate name)),
      ResourceSet_Get = (\<lambda>path. None)\<rparr>"

definition example_Request :: "string \<Rightarrow> Request" where
  "example_Request path = \<lparr>URL_Path = path, Form = Map.empty, ParseMultipartForm = Some ErrNotMultipart\<rparr>"

definition example_Server :: "unit Server" where
  "example_Server =
     \<lparr>routes = (\<lambda>r. if URL_Path r = ''/'' then Some root_Target else None), log_output = []\<rparr>"

section \<open>Properties of path canonicalization\<close>










lemma normPath_nonempty:
  "p \<noteq> [] \<Longrightarrow> normPath p
     = Inr (if last p = CHR ''/'' \<and> Clean p \<noteq> ''/'' then Clean p @ ''/'' else Clean p)"
proof -
  assume ne: "p \<noteq> []"
  then have "0 < length p" by simp
  then have i: "\<not> (int (length p) - 1 < 0 \<or> int (length p) \<le> int (length p) - 1)"
    and n: "nat (int (length p) - 1) = length p - 1"
    by auto
  have "p ! (length p - 1) = last p"
    using ne by (simp add: last_conv_nth)
  with i n show ?thesis
    by (simp add: normPath_def Let_def)
qed



text \<open>
  C9. \<^verbatim>\<open>normPath\<close> indexes the last byte of its argument unguarded: on the empty string the
  index is \<open>-1\<close> and the function panics with an index out of range, after \<^verbatim>\<open>path.Clean\<close> has
  returned; on every non-empty string it returns a path. A non-empty argument is thus its
  precondition.
\<close>

theorem normPath_empty_panics:
  "normPath [] = Inl (IndexOutOfRange (- 1) 0)
   \<and> (\<forall>p. (\<exists>r. normPath p = Inr r) \<longleftrightarrow> p \<noteq> [])"
proof
  show e: "normPath [] = Inl (IndexOutOfRange (- 1) 0)"
    by (simp add: normPath_def Let_def)
  show "\<forall>p. (\<exists>r. normPath p = Inr r) \<longleftrightarrow> p \<noteq> []"
  proof
    fix p
    show "(\<exists>r. normPath p = Inr r) \<longleftrightarrow> p \<noteq> []"
      using e by (cases "p = []") (simp_all add: normPath_nonempty)
  qed
qed

section \<open>Properties of rendering\<close>

lemma MimeTypeFormats_Get_known:
  "mimeTypeFormats_Get MimeTypeFormats ''application/json'' = ''json''"
  "mimeTypeFormats_Get MimeTypeFormats ''application/xml'' = ''xml''"
  "mimeTypeFormats_Get MimeTypeFormats ''text/html'' = ''html''"
  "mimeTypeFormats_Get MimeTypeFormats ''text/plain'' = ''txt''"
  by (simp_all add: mimeTypeFormats_Get_def MimeTypeFormats_def)

lemma MimeTypeFormats_Get_unknown:
  "ct \<notin> {''application/json'', ''application/xml'', ''text/html'', ''text/plain''}
     \<Longrightarrow> mimeTypeFormats_Get MimeTypeFormats ct = []"
  by (simp add: mimeTypeFormats_Get_def MimeTypeFormats_def)


text \<open>
  C10. \<^verbatim>\<open>Controller.Render\<close> accepts at most one \<^verbatim>\<open>Context\<close> argument. With two or more it
  panics with "too many arguments", whatever the response and the templates are; with none
  or one it never does. Whenever it returns a result with no argument, the result is the
  template with a nil context; with one argument, the template with that context; and it
  does return so as soon as the response is set, its content type has a format and the
  template exists.
\<close>

theorem Controller_Render_arguments:
  "(2 \<le> length context \<longrightarrow> Controller_Render m appConfig c response context = Inl TooManyArguments)
   \<and> (length context \<le> 1 \<longrightarrow> Controller_Render m appConfig c response context \<noteq> Inl TooManyArguments)
   \<and> (\<forall>res. Controller_Render m appConfig c response [] = Inr res
         \<longrightarrow> (\<exists>t. res = ResultTemplate t None))
   \<and> (\<forall>ctx res. Controller_Render m appConfig c response [ctx] = Inr res
         \<longrightarrow> (\<exists>t. res = ResultTemplate t ctx))
   \<and> (\<forall>t. Controller.Response c \<and> mimeTypeFormats_Get m (ContentType response) \<noteq> []
           \<and> TemplateSet_Get appConfig (AppName appConfig) (Controller.Name c)
                (mimeTypeFormats_Get m (ContentType response)) = Some t
         \<longrightarrow> Controller_Render m appConfig c response [] = Inr (ResultTemplate t None)
           \<and> (\<forall>ctx. Controller_Render m appConfig c response [ctx] = Inr (ResultTemplate t ctx)))"
proof (intro conjI allI impI)
  assume "2 \<le> length context"
  then obtain a b cs where "context = a # b # cs"
    by (cases "context"; cases "tl context") auto
  then show "Controller_Render m appConfig c response context = Inl TooManyArguments"
    by (simp add: Controller_Render_def)
next
  assume "length context \<le> 1"
  then have "context = [] \<or> (\<exists>a. context = [a])"
    by (cases "context") auto
  then show "Controller_Render m appConfig c response context \<noteq> Inl TooManyArguments"
    by (auto simp: Controller_Render_def Let_def split: if_splits option.splits)
next
  fix res
  assume "Controller_Render m appConfig c response [] = Inr res"
  then show "\<exists>t. res = ResultTemplate t None"
    by (auto simp: Controller_Render_def Let_def split: if_splits option.splits)
next
  fix ctx res
  assume "Controller_Render m appConfig c response [ctx] = Inr res"
  then show "\<exists>t. res = ResultTemplate t ctx"
    by (auto simp: Controller_Render_def Let_def split: if_splits option.splits)
next
  fix t
  assume a: "Controller.Response c \<and> mimeTypeFormats_Get m (ContentType response) \<noteq> []
           \<and> TemplateSet_Get appConfig (AppName appConfig) (Controller.Name c)
                (mimeTypeFormats_Get m (ContentType response)) = Some t"
  then show "Controller_Render m appConfig c response [] = Inr (ResultTemplate t None)"
    by (simp add: Controller_Render_def Let_def)
  fix ctx
  from a show "Controller_Render m appConfig c response [ctx] = Inr (ResultTemplate t ctx)"
    by (simp add: Controller_Render_def Let_def)
qed






theorem Controller_Render_arguments_witness:
  "2 \<le> length [None, Some Map.empty :: unit Context]
   \<and> Controller_Render MimeTypeFormats (example_Config :: (string, unit) Config) example_Controller
        \<lparr>ContentType = ''text/html'', StatusCode = 200\<rparr> [None, Some Map.empty] = Inl TooManyArguments
   \<and> Controller_Render MimeTypeFormats (example_Config :: (string, unit) Config) example_Controller
        \<lparr>ContentType = ''text/html'', StatusCode = 200\<rparr> [] = Inr (ResultTemplate ''root.html'' None)
   \<and> Controller_Render MimeTypeFormats (example_Config :: (string, unit) Config) example_Controller
        \<lparr>ContentType = ''text/html'', StatusCode = 200\<rparr> [Some Map.empty]
        = Inr (ResultTemplate ''root.html'' (Some Map.empty))"
proof -
  let ?r = "\<lparr>ContentType = ''text/html'', StatusCode = 200\<rparr>"
  let ?cfg = "example_Config :: (string, unit) Config"
  have h1: "2 \<le> length [None, Some Map.empty :: unit Context]" by simp
  have h2: "Controller.Response example_Controller
      \<and> mimeTypeFormats_Get MimeTypeFormats (ContentType ?r) \<noteq> []
      \<and> TemplateSet_Get ?cfg (AppName ?cfg) (Controller.Name example_Controller)
           (mimeTypeFormats_Get MimeTypeFormats (ContentType ?r)) = Some ''root.html''"
    by (simp add: example_Controller_def example_Config_def MimeTypeFormats_Get_known)
  from Controller_Render_arguments
    [of "[None, Some Map.empty]" MimeTypeFormats ?cfg example_Controller ?r] h1
  have a: "Controller_Render MimeTypeFormats ?cfg example_Controller ?r [None, Some Map.empty]
      = Inl TooManyArguments"
    by blast
  from Controller_Render_arguments
    [of "[]" MimeTypeFormats ?cfg example_Controller ?r] h2
  have b: "Controller_Render MimeTypeFormats ?cfg example_Controller ?r [] = Inr (ResultTemplate ''root.html'' None)"
    and c: "Controller_Render MimeTypeFormats ?cfg example_Controller ?r [Some Map.empty]
      = Inr (ResultTemplate ''root.html'' (Some Map.empty))"
    by blast+
  from h1 a b c show ?thesis by blast
qed













text \<open>
  C6. \<^verbatim>\<open>SendFile\<close> asks the resource set before it looks at the kind of path: for an
  absolute path that is a key of the resource set and also a readable file, the body sent is
  the embedded resource, not the file's content.
\<close>

theorem SendFile_absolute_path_resource_first:
  "IsAbs ''/srv/data/report.txt''
   \<and> os_Stat example_Env ''/srv/data/report.txt'' = None
   \<and> os_Open example_Env ''/srv/data/report.txt'' = Inr ''file on disk''
   \<and> ResourceSet_Get example_Application ''/srv/data/report.txt''
        = Some (ResourceString ''embedded copy'')
   \<and> snd (SendFile MimeTypeFormats example_Env example_Application example_Context
        ''/srv/data/report.txt'') = None
   \<and> Body (Writer (fst (SendFile MimeTypeFormats example_Env example_Application example_Context
        ''/srv/data/report.txt''))) = ''embedded copy''"
  by (simp add: SendFile_def SendFile_send_def Context_render_def Write_def WriteHeader_def
      FromSlash_def IsAbs_def Let_def example_Env_def example_Application_def
      example_Context_def NewRecorder_def)

section \<open>Properties of the dispatcher\<close>

lemma same_sent_refl: "same_sent w w"
  by (simp add: same_sent_def)

lemma same_sent_trans: "same_sent a b \<Longrightarrow> same_sent b c \<Longrightarrow> same_sent a c"
  by (simp add: same_sent_def)

lemma same_sent_Header: "same_sent w (w\<lparr>Header := h\<rparr>)"
  by (simp add: same_sent_def)

lemma call_scope_frame:
  "call_scope f c s = ((c', s'), x) \<Longrightarrow>
     same_sent (rs_writer s) (rs_writer s') \<and> rs_Log s' = rs_Log s \<and> rs_calls s' = rs_calls s
     \<and> rs_cc s' = rs_cc s"
  by (auto simp: call_scope_def same_sent_def split: prod.splits)

lemma call_hook_frame:
  "call_hook h s = (s', e) \<Longrightarrow>
     same_sent (rs_writer s) (rs_writer s') \<and> rs_Log s' = rs_Log s \<and> rs_calls s' = rs_calls s
     \<and> (rs_cc s \<noteq> None \<longrightarrow> rs_cc s' \<noteq> None)"
proof (cases "rs_cc s")
  case None
  assume "call_hook h s = (s', e)"
  with None show ?thesis by (simp add: call_hook_def same_sent_refl)
next
  case (Some c)
  assume a: "call_hook h s = (s', e)"
  obtain c1 s1 x where p: "call_scope h c s = ((c1, s1), x)"
    by (cases "call_scope h c s") auto
  with a Some have "s' = s1\<lparr>rs_cc := Some c1\<rparr>"
    by (simp add: call_hook_def)
  with call_scope_frame [OF p] show ?thesis by simp
qed

lemma run_hooks_frame:
  "run_hooks hook mk ms i s = (s', e) \<Longrightarrow>
     same_sent (rs_writer s) (rs_writer s') \<and> rs_Log s' = rs_Log s
     \<and> (rs_cc s \<noteq> None \<longrightarrow> rs_cc s' \<noteq> None)
     \<and> (\<exists>k\<le>length ms. rs_calls s' = rs_calls s @ map mk [i..<i + k]
           \<and> (e = None \<longrightarrow> k = length ms))"
proof (induction ms arbitrary: i s)
  case Nil
  then show ?case by (simp add: same_sent_refl)
next
  case (Cons m ms)
  obtain s1 e1 where h: "call_hook (hook m) (s\<lparr>rs_calls := rs_calls s @ [mk i]\<rparr>) = (s1, e1)"
    by (cases "call_hook (hook m) (s\<lparr>rs_calls := rs_calls s @ [mk i]\<rparr>)")
  from call_hook_frame [OF h]
  have f: "same_sent (rs_writer s) (rs_writer s1)" "rs_Log s1 = rs_Log s"
    "rs_calls s1 = rs_calls s @ [mk i]" "rs_cc s \<noteq> None \<longrightarrow> rs_cc s1 \<noteq> None"
    by simp_all
  show ?case
  proof (cases e1)
    case (Some err)
    with h Cons.prems have "s' = s1" "e = Some err" by simp_all
    moreover have "rs_calls s1 = rs_calls s @ map mk [i..<i + 1]" using f(3) by simp
    moreover have "(1::nat) \<le> length (m # ms)" by simp
    ultimately have "\<exists>k\<le>length (m # ms). rs_calls s' = rs_calls s @ map mk [i..<i + k]
           \<and> (e = None \<longrightarrow> k = length (m # ms))"
      by blast
    with f \<open>s' = s1\<close> show ?thesis by simp
  next
    case None
    with h Cons.prems have r: "run_hooks hook mk ms (Suc i) s1 = (s', e)" by simp
    from Cons.IH [OF r] obtain k where
      g: "same_sent (rs_writer s1) (rs_writer s')" "rs_Log s' = rs_Log s1"
        "rs_cc s1 \<noteq> None \<longrightarrow> rs_cc s' \<noteq> None" "k \<le> length ms"
        "rs_calls s' = rs_calls s1 @ map mk [Suc i..<Suc i + k]" "e = None \<longrightarrow> k = length ms"
      by blast
    have "[i..<i + Suc k] = i # [Suc i..<Suc i + k]"
      by (simp add: upt_rec)
    then have "rs_calls s' = rs_calls s @ map mk [i..<i + Suc k]"
      using g(5) f(3) by simp
    moreover have "Suc k \<le> length (m # ms)" using g(4) by simp
    moreover have "e = None \<longrightarrow> Suc k = length (m # ms)" using g(6) by simp
    ultimately have "\<exists>k\<le>length (m # ms). rs_calls s' = rs_calls s @ map mk [i..<i + k]
           \<and> (e = None \<longrightarrow> k = length (m # ms))"
      by blast
    moreover have "same_sent (rs_writer s) (rs_writer s')"
      using f(1) g(1) by (rule same_sent_trans)
    moreover have "rs_Log s' = rs_Log s" using f(2) g(2) by simp
    moreover have "rs_cc s \<noteq> None \<longrightarrow> rs_cc s' \<noteq> None" using f(4) g(3) by simp
    ultimately show ?thesis by blast
  qed
qed

lemma run_hooks_no_fault:
  "rs_cc s \<noteq> None \<Longrightarrow> \<forall>m\<in>set ms. \<forall>sc. snd (hook m sc) = None
     \<Longrightarrow> snd (run_hooks hook mk ms i s) = None"
proof (induction ms arbitrary: i s)
  case Nil
  then show ?case by simp
next
  case (Cons m ms)
  obtain c where c: "rs_cc s = Some c" using Cons.prems(1) by auto
  let ?s = "s\<lparr>rs_calls := rs_calls s @ [mk i]\<rparr>"
  obtain s1 e1 where h: "call_hook (hook m) ?s = (s1, e1)"
    by (cases "call_hook (hook m) ?s")
  have "e1 = None"
    using h c Cons.prems(2)
    by (auto simp: call_hook_def call_scope_def split: prod.splits) (metis snd_conv)
  moreover from call_hook_frame [OF h] c have "rs_cc s1 \<noteq> None" by simp
  ultimately show ?case
    using h Cons.IH [of s1 "Suc i"] Cons.prems(2) by simp
qed

lemma run_hooks_response:
  assumes "\<forall>m\<in>set ms. \<forall>sc. P (scope_response sc) \<longrightarrow> P (scope_response (fst (hook m sc)))"
    and "P (rs_response s)"
  shows "P (rs_response (fst (run_hooks hook mk ms i s)))"
  using assms
proof (induction ms arbitrary: i s)
  case Nil
  then show ?case by simp
next
  case (Cons m ms)
  let ?s = "s\<lparr>rs_calls := rs_calls s @ [mk i]\<rparr>"
  obtain s1 e1 where h: "call_hook (hook m) ?s = (s1, e1)"
    by (cases "call_hook (hook m) ?s")
  have p1: "P (rs_response s1)"
  proof (cases "rs_cc s")
    case None
    with h have "s1 = ?s" by (simp add: call_hook_def)
    with Cons.prems(2) show ?thesis by simp
  next
    case (Some c)
    let ?sc = "\<lparr>scope_cc = c, scope_response = rs_response s, scope_header = Header (rs_writer s)\<rparr>"
    from h Some have "rs_response s1 = scope_response (fst (hook m ?sc))"
      by (auto simp: call_hook_def call_scope_def split: prod.splits)
    with Cons.prems show ?thesis by simp
  qed
  show ?case
  proof (cases e1)
    case None
    with h show ?thesis
      using Cons.IH [of s1 "Suc i"] Cons.prems(1) p1 by simp
  next
    case (Some err)
    with h p1 show ?thesis by simp
  qed
qed

lemma render_setup_frame:
  "render_setup app tgt request s = (s', e) \<Longrightarrow>
     rs_writer s' = rs_writer s \<and> rs_Log s' = rs_Log s \<and> rs_calls s' = rs_calls s
     \<and> rs_response s' = rs_response s
     \<and> (e = None \<longrightarrow> (\<exists>c. rs_cc s' = Some c \<and> Controller.Response c))"
  by (auto simp: render_setup_def Let_def split: ControllerField.splits option.splits if_splits)

lemma render_setup_ok:
  "Field tgt \<noteq> OtherType \<Longrightarrow>
   ParseMultipartForm request = None \<or> ParseMultipartForm request = Some ErrNotMultipart
     \<Longrightarrow> snd (render_setup app tgt request s) = None"
  by (auto simp: render_setup_def Let_def split: ControllerField.splits option.splits)

lemma call_Method_frame:
  "call_Method tgt s = (s', r) \<Longrightarrow>
     same_sent (rs_writer s) (rs_writer s') \<and> rs_Log s' = rs_Log s
     \<and> (rs_calls s' = rs_calls s \<or> rs_calls s' = rs_calls s @ [CallMethod])
     \<and> (rs_cc s \<noteq> None \<longrightarrow> rs_cc s' \<noteq> None \<and> rs_calls s' = rs_calls s @ [CallMethod])"
proof (cases "rs_cc s")
  case None
  assume "call_Method tgt s = (s', r)"
  with None show ?thesis by (simp add: call_Method_def same_sent_refl)
next
  case (Some c)
  assume a: "call_Method tgt s = (s', r)"
  let ?s = "s\<lparr>rs_calls := rs_calls s @ [CallMethod]\<rparr>"
  obtain c1 s1 x where p: "call_scope (Method tgt) c ?s = ((c1, s1), x)"
    by (cases "call_scope (Method tgt) c ?s") auto
  with a Some have "s' = s1 \<or> s' = s1\<lparr>rs_cc := Some c1\<rparr>"
    by (auto simp: call_Method_def split: ControllerField.splits)
  with call_scope_frame [OF p] Some show ?thesis by auto
qed

lemma render_body_frame:
  assumes "render_body app tgt request s = (s1, r)"
  shows "same_sent (rs_writer s) (rs_writer s1) \<and> rs_Log s1 = rs_Log s
     \<and> (\<exists>j\<le>length (Middlewares (Config app)). \<exists>mc.
           rs_calls s1 = rs_calls s @ map CallBefore [0..<j] @ mc \<and> (mc = [] \<or> mc = [CallMethod]))"
proof -
  obtain s0 e0 where p0: "render_setup app tgt request s = (s0, e0)"
    by (cases "render_setup app tgt request s")
  note f0 = render_setup_frame [OF p0]
  show ?thesis
  proof (cases e0)
    case (Some err)
    with p0 assms have "s1 = s0" by (simp add: render_body_def)
    with f0 have "same_sent (rs_writer s) (rs_writer s1)" "rs_Log s1 = rs_Log s"
      "rs_calls s1 = rs_calls s @ map CallBefore [0..<0] @ []"
      by (simp_all add: same_sent_refl)
    then show ?thesis by blast
  next
    case None
    obtain s2 e2 where p2: "run_Before app s0 = (s2, e2)"
      by (cases "run_Before app s0")
    from run_hooks_frame [OF p2 [unfolded run_Before_def]] obtain j where
      f2: "same_sent (rs_writer s0) (rs_writer s2)" "rs_Log s2 = rs_Log s0"
        "j \<le> length (Middlewares (Config app))"
        "rs_calls s2 = rs_calls s0 @ map CallBefore [0..<j]"
      by auto
    show ?thesis
    proof (cases e2)
      case (Some err)
      with None p0 p2 assms have "s1 = s2" by (simp add: render_body_def)
      with f0 f2 have "same_sent (rs_writer s) (rs_writer s1)" "rs_Log s1 = rs_Log s"
        "rs_calls s1 = rs_calls s @ map CallBefore [0..<j] @ []"
        by simp_all
      with f2(3) show ?thesis by blast
    next
      case n2: None
      with None p0 p2 assms have p3: "call_Method tgt s2 = (s1, r)"
        by (simp add: render_body_def)
      from call_Method_frame [OF p3] obtain mc where
        f3: "same_sent (rs_writer s2) (rs_writer s1)" "rs_Log s1 = rs_Log s2"
          "rs_calls s1 = rs_calls s2 @ mc" "mc = [] \<or> mc = [CallMethod]"
        by auto
      have "same_sent (rs_writer s) (rs_writer s1)"
        using f0 f2(1) f3(1) same_sent_trans by metis
      moreover have "rs_Log s1 = rs_Log s" using f0 f2(2) f3(2) by simp
      moreover have "rs_calls s1 = rs_calls s @ map CallBefore [0..<j] @ mc"
        using f0 f2(4) f3(3) by simp
      ultimately show ?thesis using f2(3) f3(4) by blast
    qed
  qed
qed

lemma ErrorController_Get_result:
  "ErrorController_Get m app code sc = (sc', Inr result) \<Longrightarrow>
     StatusCode (scope_response sc') = code \<and> (\<exists>res. result = [res])
     \<and> scope_cc sc' = scope_cc sc \<and> scope_header sc' = scope_header sc"
  by (auto simp: ErrorController_Get_def Let_def split: if_splits sum.splits)

lemma ErrorController_Get_ok:
  "Controller.Response (scope_cc sc) \<Longrightarrow>
   mimeTypeFormats_Get m (if ContentType (scope_response sc) = [] then ''text/html''
                           else ContentType (scope_response sc)) \<noteq> []
     \<Longrightarrow> \<exists>sc' res. ErrorController_Get m app code sc = (sc', Inr [res])"
  by (auto simp: ErrorController_Get_def Let_def split: if_splits sum.splits)

lemma ErrorController_Get_fault:
  "ErrorController_Get m app code sc = (sc', Inl err) \<Longrightarrow>
     \<not> Controller.Response (scope_cc sc)
     \<or> mimeTypeFormats_Get m (if ContentType (scope_response sc) = [] then ''text/html''
                             else ContentType (scope_response sc)) = []"
  by (auto simp: ErrorController_Get_def Let_def split: if_splits sum.splits)

lemma render_recover_Inr:
  "render_recover m app s (Inr result) = (s, Inr result)"
  by (simp add: render_recover_def)

lemma render_recover_Inl:
  assumes "render_recover m app s (Inl err) = (s', r')"
  shows "same_sent (rs_writer s) (rs_writer s') \<and> rs_Log s' = rs_Log s @ [LogErrorAndStack err]
     \<and> rs_calls s' = rs_calls s @ [CallErrorGet 500] \<and> rs_cc s' \<noteq> None
     \<and> (\<forall>result. r' = Inr result \<longrightarrow>
           StatusCode (rs_response s') = 500 \<and> (\<exists>res. result = [res]))"
proof -
  define s0 where "s0 = logStackAndError err s"
  define cc where "cc = (case rs_cc s0 of
                       None \<Rightarrow> zero_Controller\<lparr>Request := True, Controller.Response := True\<rparr>
                     | Some c \<Rightarrow> c)"
  define s1 where "s1 = s0\<lparr>rs_cc := Some cc, rs_calls := rs_calls s0 @ [CallErrorGet 500]\<rparr>"
  obtain c2 s2 x where p: "call_scope (ErrorController_Get m app 500) cc s1 = ((c2, s2), x)"
    by (cases "call_scope (ErrorController_Get m app 500) cc s1") auto
  from assms p have e: "s' = s2\<lparr>rs_cc := Some c2\<rparr>" "r' = x"
    by (simp_all add: render_recover_def Let_def s0_def cc_def s1_def)
  note f = call_scope_frame [OF p]
  have st: "\<forall>result. x = Inr result \<longrightarrow>
           StatusCode (rs_response s2) = 500 \<and> (\<exists>res. result = [res])"
    using p ErrorController_Get_result [of m app 500]
    by (auto simp: call_scope_def split: prod.splits)
  from f e st show ?thesis
    by (simp add: s1_def s0_def logStackAndError_def same_sent_def)
qed

lemma Result_Proc_frame:
  "Result_Proc enc res w = (w', e) \<Longrightarrow>
     wroteHeader w \<longrightarrow> wroteHeader w' \<and> Code w' = Code w \<and> Sent w' = Sent w"
  by (auto simp: Result_Proc_def Write_def WriteHeader_def Let_def split: sum.splits)

lemma render_write_frame:
  assumes "render_write enc s result = (s', e)"
  shows "rs_Log s' = rs_Log s \<and> rs_response s' = rs_response s \<and> wroteHeader (rs_writer s')
     \<and> Code (rs_writer s') = (if wroteHeader (rs_writer s) then Code (rs_writer s)
                               else StatusCode (rs_response s))
     \<and> (rs_calls s' = rs_calls s \<or> rs_calls s' = rs_calls s @ [CallProc])"
proof (cases result)
  case Nil
  with assms show ?thesis
    by (auto simp: render_write_def Let_def WriteHeader_def)
next
  case (Cons res rest)
  let ?w = "WriteHeader (rs_writer s) (StatusCode (rs_response s))"
  obtain w' e' where p: "Result_Proc enc res ?w = (w', e')"
    by (cases "Result_Proc enc res ?w")
  have wh: "wroteHeader ?w" by (simp add: WriteHeader_def)
  from Result_Proc_frame [OF p] wh have "wroteHeader w'" "Code w' = Code ?w" by simp_all
  moreover from assms Cons p
  have "s' = s\<lparr>rs_writer := w', rs_calls := rs_calls s @ [CallProc]\<rparr>"
    by (simp add: render_write_def Let_def)
  ultimately show ?thesis
    by (simp add: WriteHeader_def)
qed

lemma http_Error_sent:
  "wroteHeader (http_Error w msg code)
   \<and> Code (http_Error w msg code) = (if wroteHeader w then Code w else code)
   \<and> Body (http_Error w msg code) = Body w @ msg @ [CHR 0x0A]
   \<and> (\<not> wroteHeader w \<longrightarrow>
        Sent (http_Error w msg code) ''Content-Type'' = Some ''text/plain; charset=utf-8'')"
  by (simp add: http_Error_def Write_def WriteHeader_def Let_def)

lemma render_recover_inner_frame:
  "rs_Log (render_recover_inner err s) = rs_Log s @ [LogErrorAndStack err]
   \<and> rs_calls (render_recover_inner err s) = rs_calls s
   \<and> rs_writer (render_recover_inner err s) = http_Error (rs_writer s) ''Internal Server Error'' 500
   \<and> StatusCode (rs_response (render_recover_inner err s)) = 500"
  by (simp add: render_recover_inner_def logStackAndError_def Let_def StatusText_def)

lemma before_calls_map:
  "before_calls (map CallBefore l) = l" "before_calls (map CallAfter l) = []"
  by (induction l) (simp_all add: before_calls_def)

lemma before_calls_simps:
  "before_calls (xs @ ys) = before_calls xs @ before_calls ys"
  "before_calls [] = []"
  "before_calls [CallMethod] = []"
  "before_calls [CallErrorGet code] = []"
  "before_calls [CallProc] = []"
  by (simp_all add: before_calls_def)

lemma after_calls_map:
  "after_calls (map CallAfter l) = l" "after_calls (map CallBefore l) = []"
  by (induction l) (simp_all add: after_calls_def)

lemma after_calls_simps:
  "after_calls (xs @ ys) = after_calls xs @ after_calls ys"
  "after_calls [] = []"
  "after_calls [CallMethod] = []"
  "after_calls [CallErrorGet code] = []"
  "after_calls [CallProc] = []"
  by (simp_all add: after_calls_def)

lemma render_unfold:
  assumes "render_body app tgt request (render_init w) = (s1, r)"
    and "render_deferred m enc app s1 r = (s2, p)"
  shows "render m enc app tgt request w
     = (case p of None \<Rightarrow> (s2, None) | Some err \<Rightarrow> (render_recover_inner err s2, None))"
  using assms by (simp add: render_def split: option.splits)

lemma render_init_fields:
  "rs_cc (render_init w) = None" "rs_response (render_init w) = newResponse"
  "rs_writer (render_init w) = w" "rs_Log (render_init w) = []" "rs_calls (render_init w) = []"
  by (simp_all add: render_init_def)

text \<open>The deferred function, stage by stage.\<close>

lemma render_deferred_frame:
  assumes d: "render_deferred m enc app s1 r = (s2, p)"
  shows "\<exists>k pc. k \<le> length (Middlewares (Config app))
           \<and> rs_calls s2 = rs_calls s1 @ (case r of Inl err \<Rightarrow> [CallErrorGet 500] | Inr x \<Rightarrow> [])
                 @ map CallAfter [0..<k] @ pc
           \<and> (pc = [] \<or> pc = [CallProc])
           \<and> rs_Log s2 = rs_Log s1 @ (case r of Inl err \<Rightarrow> [LogErrorAndStack err] | Inr x \<Rightarrow> [])
           \<and> (p = None \<longrightarrow> k = length (Middlewares (Config app)) \<and> wroteHeader (rs_writer s2))
           \<and> ((\<exists>result. snd (render_recover m app s1 r) = Inr result)
                \<and> snd (run_After app (fst (render_recover m app s1 r))) = None
               \<longrightarrow> k = length (Middlewares (Config app)))
           \<and> ((\<exists>err. snd (render_recover m app s1 r) = Inl err) \<longrightarrow> k = 0)"
proof -
  let ?n = "length (Middlewares (Config app))"
  let ?g = "case r of Inl err \<Rightarrow> [CallErrorGet 500] | Inr x \<Rightarrow> []"
  let ?lg = "case r of Inl err \<Rightarrow> [LogErrorAndStack err] | Inr x \<Rightarrow> []"
  let ?Q = "\<lambda>k pc. k \<le> ?n
           \<and> rs_calls s2 = rs_calls s1 @ ?g @ map CallAfter [0..<k] @ pc
           \<and> (pc = [] \<or> pc = [CallProc])
           \<and> rs_Log s2 = rs_Log s1 @ ?lg
           \<and> (p = None \<longrightarrow> k = ?n \<and> wroteHeader (rs_writer s2))
           \<and> ((\<exists>result. snd (render_recover m app s1 r) = Inr result)
                \<and> snd (run_After app (fst (render_recover m app s1 r))) = None
               \<longrightarrow> k = ?n)
           \<and> ((\<exists>err. snd (render_recover m app s1 r) = Inl err) \<longrightarrow> k = 0)"
  obtain s' r' where pr: "render_recover m app s1 r = (s', r')"
    by (cases "render_recover m app s1 r")
  have f1: "rs_calls s' = rs_calls s1 @ ?g" "rs_Log s' = rs_Log s1 @ ?lg"
  proof -
    show "rs_calls s' = rs_calls s1 @ ?g"
    proof (cases r)
      case (Inl err)
      with render_recover_Inl [of m app s1 err s' r'] pr show ?thesis by simp
    next
      case (Inr x)
      with pr have "s' = s1" by (simp add: render_recover_Inr)
      with Inr show ?thesis by simp
    qed
    show "rs_Log s' = rs_Log s1 @ ?lg"
    proof (cases r)
      case (Inl err)
      with render_recover_Inl [of m app s1 err s' r'] pr show ?thesis by simp
    next
      case (Inr x)
      with pr have "s' = s1" by (simp add: render_recover_Inr)
      with Inr show ?thesis by simp
    qed
  qed
  have "\<exists>k pc. ?Q k pc"
  proof (cases r')
    case (Inl err)
    with pr d have e: "s2 = s'" "p = Some err" by (simp_all add: render_deferred_def)
    have c1: "rs_calls s2 = rs_calls s1 @ ?g @ map CallAfter [0..<0] @ []"
      using e f1 by simp
    have c2: "rs_Log s2 = rs_Log s1 @ ?lg" using e f1 by simp
    have c3: "p = None \<longrightarrow> 0 = ?n \<and> wroteHeader (rs_writer s2)" using e by simp
    have c4: "(\<exists>result. snd (render_recover m app s1 r) = Inr result)
                \<and> snd (run_After app (fst (render_recover m app s1 r))) = None
               \<longrightarrow> 0 = ?n"
      using pr Inl by simp
    have "?Q 0 []" using c1 c2 c3 c4 by blast
    then show ?thesis by blast
  next
    case (Inr result)
    obtain s3 e3 where pa: "run_After app s' = (s3, e3)"
      by (cases "run_After app s'")
    from run_hooks_frame [OF pa [unfolded run_After_def]] obtain k where
      f3: "rs_Log s3 = rs_Log s'" "k \<le> ?n"
        "rs_calls s3 = rs_calls s' @ map CallAfter [0..<k]"
        "e3 = None \<longrightarrow> k = ?n"
      by auto
    have c5: "(\<exists>err. snd (render_recover m app s1 r) = Inl err) \<longrightarrow> k = 0"
      using pr Inr by simp
    show ?thesis
    proof (cases e3)
      case (Some err)
      with Inr pr pa d have e: "s2 = s3" "p = Some err" by (simp_all add: render_deferred_def)
      have c1: "rs_calls s2 = rs_calls s1 @ ?g @ map CallAfter [0..<k] @ []"
        using e f1 f3 by simp
      have c2: "rs_Log s2 = rs_Log s1 @ ?lg" using e f1 f3 by simp
      have c3: "p = None \<longrightarrow> k = ?n \<and> wroteHeader (rs_writer s2)" using e by simp
      have c4: "(\<exists>result. snd (render_recover m app s1 r) = Inr result)
                \<and> snd (run_After app (fst (render_recover m app s1 r))) = None
               \<longrightarrow> k = ?n"
        using pr pa Some by simp
      have "?Q k []" using f3(2) c1 c2 c3 c4 c5 by blast
      then show ?thesis by blast
    next
      case None
      with Inr pr pa d have pw: "render_write enc s3 result = (s2, p)"
        by (simp add: render_deferred_def)
      from render_write_frame [OF pw] obtain pc where
        f4: "rs_Log s2 = rs_Log s3" "wroteHeader (rs_writer s2)"
          "rs_calls s2 = rs_calls s3 @ pc" "pc = [] \<or> pc = [CallProc]"
        by auto
      have kn: "k = ?n" using f3(4) None by simp
      have c1: "rs_calls s2 = rs_calls s1 @ ?g @ map CallAfter [0..<k] @ pc"
        using f1 f3 f4 by simp
      have c2: "rs_Log s2 = rs_Log s1 @ ?lg" using f1 f3 f4 by simp
      have "?Q k pc" using f3(2) c1 c2 kn f4(2,4) c5 by blast
      then show ?thesis by blast
    qed
  qed
  then show ?thesis .
qed

text \<open>The shape of every run of \<^verbatim>\<open>render\<close>.\<close>

lemma render_trace:
  assumes b: "render_body app tgt request (render_init w) = (s1, r)"
  shows "\<exists>j k mc pc l. j \<le> length (Middlewares (Config app)) \<and> k \<le> length (Middlewares (Config app))
      \<and> rs_calls (fst (render m enc app tgt request w))
          = map CallBefore [0..<j] @ mc @ (case r of Inl err \<Rightarrow> [CallErrorGet 500] | Inr x \<Rightarrow> [])
              @ map CallAfter [0..<k] @ pc
      \<and> (mc = [] \<or> mc = [CallMethod]) \<and> (pc = [] \<or> pc = [CallProc])
      \<and> rs_Log (fst (render m enc app tgt request w))
          = (case r of Inl err \<Rightarrow> [LogErrorAndStack err] | Inr x \<Rightarrow> []) @ l
      \<and> snd (render m enc app tgt request w) = None
      \<and> wroteHeader (rs_writer (fst (render m enc app tgt request w)))
      \<and> rs_calls s1 = map CallBefore [0..<j] @ mc
      \<and> ((\<exists>result. snd (render_recover m app s1 r) = Inr result)
            \<and> snd (run_After app (fst (render_recover m app s1 r))) = None
           \<longrightarrow> k = length (Middlewares (Config app)))
      \<and> ((\<exists>err. snd (render_recover m app s1 r) = Inl err) \<longrightarrow> k = 0)"
proof -
  let ?n = "length (Middlewares (Config app))"
  let ?g = "case r of Inl err \<Rightarrow> [CallErrorGet 500] | Inr x \<Rightarrow> []"
  let ?lg = "case r of Inl err \<Rightarrow> [LogErrorAndStack err] | Inr x \<Rightarrow> []"
  let ?R = "render m enc app tgt request w"
  let ?Q = "\<lambda>j k mc pc l. j \<le> ?n \<and> k \<le> ?n
      \<and> rs_calls (fst ?R) = map CallBefore [0..<j] @ mc @ ?g @ map CallAfter [0..<k] @ pc
      \<and> (mc = [] \<or> mc = [CallMethod]) \<and> (pc = [] \<or> pc = [CallProc])
      \<and> rs_Log (fst ?R) = ?lg @ l
      \<and> snd ?R = None
      \<and> wroteHeader (rs_writer (fst ?R))
      \<and> rs_calls s1 = map CallBefore [0..<j] @ mc
      \<and> ((\<exists>result. snd (render_recover m app s1 r) = Inr result)
            \<and> snd (run_After app (fst (render_recover m app s1 r))) = None
           \<longrightarrow> k = ?n)
      \<and> ((\<exists>err. snd (render_recover m app s1 r) = Inl err) \<longrightarrow> k = 0)"
  from render_body_frame [OF b] obtain j mc where
    f1: "rs_Log s1 = []" "j \<le> ?n"
      "rs_calls s1 = map CallBefore [0..<j] @ mc" "mc = [] \<or> mc = [CallMethod]"
    by (auto simp: render_init_fields)
  obtain s2 p where d: "render_deferred m enc app s1 r = (s2, p)"
    by (cases "render_deferred m enc app s1 r")
  from render_deferred_frame [OF d] obtain k pc where
    f2: "k \<le> ?n"
      "rs_calls s2 = rs_calls s1 @ ?g @ map CallAfter [0..<k] @ pc"
      "pc = [] \<or> pc = [CallProc]"
      "rs_Log s2 = rs_Log s1 @ ?lg"
      "p = None \<longrightarrow> wroteHeader (rs_writer s2)"
      "(\<exists>result. snd (render_recover m app s1 r) = Inr result)
            \<and> snd (run_After app (fst (render_recover m app s1 r))) = None
           \<longrightarrow> k = ?n"
      "(\<exists>err. snd (render_recover m app s1 r) = Inl err) \<longrightarrow> k = 0"
    by blast
  note u = render_unfold [OF b d]
  have "\<exists>l. rs_calls (fst ?R) = rs_calls s2 \<and> rs_Log (fst ?R) = rs_Log s2 @ l
      \<and> snd ?R = None \<and> wroteHeader (rs_writer (fst ?R))"
  proof (cases p)
    case None
    with u have "?R = (s2, None)" by simp
    with f2(5) None have "rs_calls (fst ?R) = rs_calls s2 \<and> rs_Log (fst ?R) = rs_Log s2 @ []
      \<and> snd ?R = None \<and> wroteHeader (rs_writer (fst ?R))"
      by simp
    then show ?thesis by blast
  next
    case (Some err)
    with u have "?R = (render_recover_inner err s2, None)" by simp
    with render_recover_inner_frame [of err s2] http_Error_sent
    have "rs_calls (fst ?R) = rs_calls s2 \<and> rs_Log (fst ?R) = rs_Log s2 @ [LogErrorAndStack err]
      \<and> snd ?R = None \<and> wroteHeader (rs_writer (fst ?R))"
      by simp
    then show ?thesis by blast
  qed
  then obtain l where f3: "rs_calls (fst ?R) = rs_calls s2" "rs_Log (fst ?R) = rs_Log s2 @ l"
    "snd ?R = None" "wroteHeader (rs_writer (fst ?R))"
    by blast
  have c1: "rs_calls (fst ?R) = map CallBefore [0..<j] @ mc @ ?g @ map CallAfter [0..<k] @ pc"
    using f3(1) f2(2) f1(3) by simp
  have c2: "rs_Log (fst ?R) = ?lg @ l" using f3(2) f2(4) f1(1) by simp
  have "?Q j k mc pc l"
    using f1(2) f2(1) c1 f1(4) f2(3) c2 f3(3,4) f1(3) f2(6,7) by blast
  then show ?thesis by blast
qed

lemma render_body_Inr_cc:
  assumes "render_body app tgt request s = (s1, Inr result)"
  shows "rs_cc s1 \<noteq> None"
proof -
  obtain s0 e0 where p0: "render_setup app tgt request s = (s0, e0)"
    by (cases "render_setup app tgt request s")
  obtain s2 e2 where p2: "run_Before app s0 = (s2, e2)"
    by (cases "run_Before app s0")
  from assms p0 p2 have e: "e0 = None" "e2 = None" and p3: "call_Method tgt s2 = (s1, Inr result)"
    by (auto simp: render_body_def split: option.splits)
  from render_setup_frame [OF p0] e have "rs_cc s0 \<noteq> None" by auto
  with run_hooks_frame [OF p2 [unfolded run_Before_def]] have "rs_cc s2 \<noteq> None" by simp
  with call_Method_frame [OF p3] show ?thesis by simp
qed

lemma run_hooks_scope_inv:
  assumes "\<forall>m\<in>set ms. \<forall>sc. P (scope_cc sc) (scope_response sc)
             \<longrightarrow> P (scope_cc (fst (hook m sc))) (scope_response (fst (hook m sc)))"
    and "rs_cc s = Some c" and "P c (rs_response s)"
  shows "\<exists>c'. rs_cc (fst (run_hooks hook mk ms i s)) = Some c'
           \<and> P c' (rs_response (fst (run_hooks hook mk ms i s)))"
  using assms
proof (induction ms arbitrary: i s c)
  case Nil
  then show ?case by simp
next
  case (Cons m ms)
  let ?s = "s\<lparr>rs_calls := rs_calls s @ [mk i]\<rparr>"
  let ?sc = "\<lparr>scope_cc = c, scope_response = rs_response s, scope_header = Header (rs_writer s)\<rparr>"
  obtain s1 e1 where h: "call_hook (hook m) ?s = (s1, e1)"
    by (cases "call_hook (hook m) ?s")
  from h Cons.prems(2)
  have "rs_cc s1 = Some (scope_cc (fst (hook m ?sc)))"
    "rs_response s1 = scope_response (fst (hook m ?sc))"
    by (auto simp: call_hook_def call_scope_def split: prod.splits)
  moreover from Cons.prems have "P (scope_cc (fst (hook m ?sc))) (scope_response (fst (hook m ?sc)))"
    by simp
  ultimately have p1: "rs_cc s1 = Some (scope_cc (fst (hook m ?sc)))"
    "P (scope_cc (fst (hook m ?sc))) (rs_response s1)"
    by simp_all
  show ?case
  proof (cases e1)
    case None
    with h show ?thesis
      using Cons.IH [OF _ p1] Cons.prems(1) by simp
  next
    case (Some err)
    with h p1 show ?thesis by simp
  qed
qed

lemma render_recover_Inl_ok:
  assumes "case rs_cc s of None \<Rightarrow> True | Some c \<Rightarrow> Controller.Response c"
    and "mimeTypeFormats_Get m (if ContentType (rs_response s) = [] then ''text/html''
                                else ContentType (rs_response s)) \<noteq> []"
  shows "\<exists>res. snd (render_recover m app s (Inl err)) = Inr [res]"
proof -
  define cc where "cc = (case rs_cc s of
                       None \<Rightarrow> zero_Controller\<lparr>Request := True, Controller.Response := True\<rparr>
                     | Some c \<Rightarrow> c)"
  let ?sc = "\<lparr>scope_cc = cc, scope_response = rs_response s, scope_header = Header (rs_writer s)\<rparr>"
  have "Controller.Response (scope_cc ?sc)"
    using assms(1) by (simp add: cc_def split: option.splits)
  moreover have "mimeTypeFormats_Get m (if ContentType (scope_response ?sc) = [] then ''text/html''
                           else ContentType (scope_response ?sc)) \<noteq> []"
    by (cases "ContentType (rs_response s) = []") (use assms(2) in simp_all)
  ultimately have "\<exists>sc' res. ErrorController_Get m app 500 ?sc = (sc', Inr [res])"
    by (rule ErrorController_Get_ok)
  then obtain sc' res where "ErrorController_Get m app 500 ?sc = (sc', Inr [res])" by blast
  then have "snd (render_recover m app s (Inl err)) = Inr [res]"
    by (simp add: render_recover_def Let_def logStackAndError_def call_scope_def cc_def)
  then show ?thesis by blast
qed

lemma render_recover_Inl_fault:
  assumes "\<not> (case rs_cc s of None \<Rightarrow> True | Some c \<Rightarrow> Controller.Response c)
    \<or> mimeTypeFormats_Get m (if ContentType (rs_response s) = [] then ''text/html''
                               else ContentType (rs_response s)) = []"
  shows "\<exists>e. snd (render_recover m app s (Inl err)) = Inl e"
proof -
  define cc where "cc = (case rs_cc s of
                       None \<Rightarrow> zero_Controller\<lparr>Request := True, Controller.Response := True\<rparr>
                     | Some c \<Rightarrow> c)"
  let ?sc = "\<lparr>scope_cc = cc, scope_response = rs_response s, scope_header = Header (rs_writer s)\<rparr>"
  obtain sc' x where g: "ErrorController_Get m app 500 ?sc = (sc', x)"
    by (cases "ErrorController_Get m app 500 ?sc")
  have "\<exists>e. x = Inl e"
  proof (cases x)
    case (Inl e)
    then show ?thesis by simp
  next
    case (Inr result)
    with g assms show ?thesis
      by (auto simp: ErrorController_Get_def Let_def cc_def zero_Controller_def
          split: if_splits sum.splits option.splits)
  qed
  moreover from g have "snd (render_recover m app s (Inl err)) = x"
    by (simp add: render_recover_def Let_def logStackAndError_def call_scope_def cc_def)
  ultimately show ?thesis by simp
qed

text \<open>The status code sent by \<^verbatim>\<open>render\<close>.\<close>

lemma render_Code:
  assumes b: "render_body app tgt request (render_init w) = (s1, r)"
    and nw: "\<not> wroteHeader w"
  shows "Code (rs_writer (fst (render m enc app tgt request w)))
     = (case render_recover m app s1 r of
          (s', Inl e) \<Rightarrow> 500
        | (s', Inr result) \<Rightarrow>
            (case run_After app s' of
               (s3, Some e) \<Rightarrow> 500
             | (s3, None) \<Rightarrow> StatusCode (rs_response s3)))"
proof -
  from render_body_frame [OF b] have w1: "\<not> wroteHeader (rs_writer s1)"
    using nw by (simp add: render_init_fields same_sent_def)
  obtain s' r' where pr: "render_recover m app s1 r = (s', r')"
    by (cases "render_recover m app s1 r")
  have w2: "\<not> wroteHeader (rs_writer s')"
  proof (cases r)
    case (Inl err)
    with render_recover_Inl [of m app s1 err s' r'] pr w1 show ?thesis
      by (simp add: same_sent_def)
  next
    case (Inr x)
    with pr w1 show ?thesis by (simp add: render_recover_Inr)
  qed
  show ?thesis
  proof (cases r')
    case (Inl e)
    with pr have d: "render_deferred m enc app s1 r = (s', Some e)"
      by (simp add: render_deferred_def)
    from render_unfold [OF b d] have "fst (render m enc app tgt request w) = render_recover_inner e s'"
      by simp
    with w2 pr Inl show ?thesis
      by (simp add: render_recover_inner_frame http_Error_sent)
  next
    case (Inr result)
    obtain s3 e3 where pa: "run_After app s' = (s3, e3)"
      by (cases "run_After app s'")
    from run_hooks_frame [OF pa [unfolded run_After_def]] w2
    have w3: "\<not> wroteHeader (rs_writer s3)" by (simp add: same_sent_def)
    show ?thesis
    proof (cases e3)
      case (Some e)
      with Inr pr pa have d: "render_deferred m enc app s1 r = (s3, Some e)"
        by (simp add: render_deferred_def)
      from render_unfold [OF b d] have "fst (render m enc app tgt request w) = render_recover_inner e s3"
        by simp
      with w3 pr pa Inr Some show ?thesis
        by (simp add: render_recover_inner_frame http_Error_sent)
    next
      case None
      obtain s2 p where pw: "render_write enc s3 result = (s2, p)"
        by (cases "render_write enc s3 result")
      from render_write_frame [OF pw] w3
      have c2: "Code (rs_writer s2) = StatusCode (rs_response s3)" "wroteHeader (rs_writer s2)"
        by simp_all
      from Inr pr pa None pw have d: "render_deferred m enc app s1 r = (s2, p)"
        by (simp add: render_deferred_def)
      have "Code (rs_writer (fst (render m enc app tgt request w))) = StatusCode (rs_response s3)"
      proof (cases p)
        case None
        with render_unfold [OF b d] c2 show ?thesis by simp
      next
        case (Some e)
        with render_unfold [OF b d] c2 show ?thesis
          by (simp add: render_recover_inner_frame http_Error_sent)
      qed
      with pr pa Inr None show ?thesis by simp
    qed
  qed
qed

end
